theory Spec2Isabelle
  imports Complex_Main
begin

section \<open>Tabular data as the integration scripts use it\<close>

text \<open>
  The scripts work on pandas DataFrames read from CSV files. A cell is a missing value
  (NaN / None), a number or a string. Numbers are rationals: Python compares and hashes
  \<open>1\<close> and \<open>1.0\<close> alike, so one numeric type serves for int64 and float64
  columns; floating-point rounding is not modelled.
\<close>

datatype val = VNull | VNum rat | VStr string

text \<open>
  A row lists its cells with their column names, in column order (what
  \<open>df.to_dict('records')\<close> gives); \<open>columns\<close> is \<open>df.columns\<close>, kept on
  its own because a frame without rows still has columns.
\<close>

type_synonym row = "(string \<times> val) list"

record dataframe =
  columns :: "string list"
  rows :: "row list"

definition wf_df :: "dataframe \<Rightarrow> bool" where
  "wf_df df = list_all (\<lambda>r. map fst r = columns df) (rows df)"

text \<open>Exceptions that pandas raises in the modelled operations.\<close>

datatype error = KeyError string | TypeError

fun mapM :: "('a \<Rightarrow> error + 'b) \<Rightarrow> 'a list \<Rightarrow> error + 'b list" where
  "mapM f [] = Inr []"
| "mapM f (x # xs) =
     (case f x of
        Inl e \<Rightarrow> Inl e
      | Inr y \<Rightarrow> (case mapM f xs of Inl e \<Rightarrow> Inl e | Inr ys \<Rightarrow> Inr (y # ys)))"

text \<open>\<open>row[c]\<close> for a column the caller has checked to exist.\<close>

definition cell :: "row \<Rightarrow> string \<Rightarrow> val" where
  "cell r c = (case map_of r c of Some v \<Rightarrow> v | None \<Rightarrow> VNull)"

text \<open>\<open>df[c]\<close>: the column as a series; KeyError when the frame has no such column.\<close>

definition get_col :: "dataframe \<Rightarrow> string \<Rightarrow> error + val list" where
  "get_col df c =
     (if c \<in> set (columns df) then Inr (map (\<lambda>r. cell r c) (rows df)) else Inl (KeyError c))"

text \<open>
  \<open>df[c] = series\<close>: overwrites the column in place when it exists, appends it as the
  last column otherwise. The series always comes from the same frame, so it has one value
  per row.
\<close>

definition set_col :: "dataframe \<Rightarrow> string \<Rightarrow> val list \<Rightarrow> dataframe" where
  "set_col df c vs =
     (if c \<in> set (columns df)
      then df\<lparr>rows := map2 (\<lambda>r v. map (\<lambda>(k, x). (k, if k = c then v else x)) r) (rows df) vs\<rparr>
      else df\<lparr>columns := columns df @ [c],
              rows := map2 (\<lambda>r v. r @ [(c, v)]) (rows df) vs\<rparr>)"

text \<open>A column holds text when some cell is a string (pandas dtype \<open>object\<close>).\<close>

definition is_text :: "val \<Rightarrow> bool" where
  "is_text v = (case v of VStr s \<Rightarrow> True | _ \<Rightarrow> False)"

text \<open>
  \<open>df[col].dtype in ['int64', 'float64']\<close> and
  \<open>select_dtypes(include=['float64', 'int64'])\<close>: a column that \<open>read_csv\<close> typed
  as numeric. A frame without rows has only \<open>object\<close> columns.
\<close>

definition dtype_numerico :: "dataframe \<Rightarrow> string \<Rightarrow> bool" where
  "dtype_numerico df c = (rows df \<noteq> [] \<and> list_all (\<lambda>r. \<not> is_text (cell r c)) (rows df))"

text \<open>
  \<open>df[[col for col in df.columns if p col]]\<close>: the columns satisfying \<open>p\<close>, in the
  frame's order.
\<close>

definition select_cols :: "(string \<Rightarrow> bool) \<Rightarrow> dataframe \<Rightarrow> dataframe" where
  "select_cols p df =
     \<lparr>columns = filter p (columns df), rows = map (filter (\<lambda>(k, x). p k)) (rows df)\<rparr>"

text \<open>\<open>df.rename(columns=f)\<close>, the dict given as the function it induces on names.\<close>

definition rename_cols :: "(string \<Rightarrow> string) \<Rightarrow> dataframe \<Rightarrow> dataframe" where
  "rename_cols f df =
     \<lparr>columns = map f (columns df), rows = map (map (\<lambda>(k, x). (f k, x))) (rows df)\<rparr>"


subsection \<open>The left join\<close>

text \<open>
  \<open>pd.merge(left, right, left_on=lk, right_on=rk, how='left')\<close>; \<open>on=k\<close> is the
  case \<open>lk = rk\<close>, where the key column appears once. Every left row is kept, in order;
  it is paired with each right row of equal key (missing keys match each other), in the
  right frame's order, and with missing values when there is none. A column name other
  than the shared key that occurs on both sides gets the suffixes \<open>_x\<close> and \<open>_y\<close>.
  KeyError when a key column does not exist. The key columns are taken to have one dtype
  (pandas refuses to join a numeric key to a textual one).
\<close>

definition merge_left :: "dataframe \<Rightarrow> dataframe \<Rightarrow> string \<Rightarrow> string \<Rightarrow> error + dataframe" where
  "merge_left left right lk rk =
     (if lk \<notin> set (columns left) then Inl (KeyError lk)
      else if rk \<notin> set (columns right) then Inl (KeyError rk)
      else
        (let rkeep = (if lk = rk then filter (\<lambda>c. c \<noteq> rk) (columns right) else columns right);
             ren_l = (\<lambda>c. if c \<in> set rkeep then c @ ''_x'' else c);
             ren_r = (\<lambda>c. if c \<in> set (columns left) then c @ ''_y'' else c);
             side_l = (\<lambda>lr. map (\<lambda>(k, x). (ren_l k, x)) lr);
             side_r = (\<lambda>rr. map (\<lambda>(k, x). (ren_r k, x)) (filter (\<lambda>(k, x). k \<in> set rkeep) rr))
         in Inr \<lparr>columns = map ren_l (columns left) @ map ren_r rkeep,
                 rows = concat (map (\<lambda>lr.
                          (let ms = filter (\<lambda>rr. cell rr rk = cell lr lk) (rows right)
                           in if ms = [] then [side_l lr @ map (\<lambda>c. (ren_r c, VNull)) rkeep]
                              else map (\<lambda>rr. side_l lr @ side_r rr) ms)) (rows left))\<rparr>))"

text \<open>The values of a key column, as the join sees them.\<close>

definition key_values :: "dataframe \<Rightarrow> string \<Rightarrow> val list" where
  "key_values df k = map (\<lambda>r. cell r k) (rows df)"



section \<open>Code normalisation (\<open>normalizar_variaveis\<close>)\<close>

text \<open>
  The \<open>mapeamentos\<close> argument: a dict with the optional entries \<open>'colunas'\<close>
  (old name to new name) and \<open>'valores'\<close> (column to code-to-label dict). A dict is
  the list of its items, in insertion order, with distinct keys; lookup is
  \<open>map_of\<close>.
\<close>

record mapeamentos =
  colunas :: "(string \<times> string) list option"
  valores :: "(string \<times> (val \<times> val) list) list option"

text \<open>
  \<open>series.map(valores).fillna(series)\<close> on one value: \<open>map\<close> gives the label of a
  code in the dict and NaN otherwise; \<open>fillna\<close> puts the original value back wherever
  the result is NaN.
\<close>

definition mapear_valor :: "(val \<times> val) list \<Rightarrow> val \<Rightarrow> val" where
  "mapear_valor codigos v =
     (case map_of codigos v of
        Some rotulo \<Rightarrow> (if rotulo = VNull then v else rotulo)
      | None \<Rightarrow> v)"

text \<open>The renaming of columns, applied to the names that exist in the frame.\<close>

definition renomear_colunas :: "(string \<times> string) list option \<Rightarrow> dataframe \<Rightarrow> dataframe" where
  "renomear_colunas cs df =
     (case cs of
        None \<Rightarrow> df
      | Some ren \<Rightarrow>
          (let colunas_existentes = filter (\<lambda>(col, novo_nome). col \<in> set (columns df)) ren
           in if colunas_existentes \<noteq> []
              then rename_cols (\<lambda>c. case map_of colunas_existentes c of
                                       Some novo_nome \<Rightarrow> novo_nome | None \<Rightarrow> c) df
              else df))"

text \<open>
  The loop over \<open>mapeamentos.get('valores', {}).items()\<close>: each column that exists is
  replaced by its mapped series.
\<close>

definition normalizar_valores :: "(string \<times> (val \<times> val) list) list \<Rightarrow> dataframe \<Rightarrow> dataframe" where
  "normalizar_valores vs df =
     fold (\<lambda>(coluna, codigos) d.
             if coluna \<in> set (columns d)
             then set_col d coluna (map (\<lambda>r. mapear_valor codigos (cell r coluna)) (rows d))
             else d) vs df"

text \<open>The mean of the numbers among the values, NaN when there is none (\<open>skipna\<close>).\<close>

fun numeros :: "val list \<Rightarrow> rat list" where
  "numeros [] = []"
| "numeros (VNum x # vs) = x # numeros vs"
| "numeros (v # vs) = numeros vs"

definition media :: "val list \<Rightarrow> val" where
  "media vs =
     (let xs = numeros vs
      in if xs = [] then VNull else VNum (sum_list xs / of_nat (length xs)))"

text \<open>
  School level: \<open>INDICE_INFRAESTRUTURA\<close> is the row mean of the columns whose name
  starts with \<open>IN_\<close>. The mean of a frame with a textual cell raises (pandas 2), and
  the \<open>except\<close> clause then leaves the frame without the index.
\<close>

definition indice_infraestrutura :: "dataframe \<Rightarrow> dataframe" where
  "indice_infraestrutura df =
     (let colunas_infra = filter (\<lambda>col. take 3 col = ''IN_'') (columns df)
      in if colunas_infra \<noteq> [] then
           (if list_ex (\<lambda>r. list_ex (\<lambda>col. is_text (cell r col)) colunas_infra) (rows df)
            then df
            else set_col df ''INDICE_INFRAESTRUTURA''
                   (map (\<lambda>r. media (map (\<lambda>col. cell r col) colunas_infra)) (rows df)))
         else df)"

definition regioes :: "(val \<times> val) list" where
  "regioes =
     map (\<lambda>uf. (VNum uf, VStr ''Norte'')) [11, 12, 13, 14, 15, 16, 17] @
     map (\<lambda>uf. (VNum uf, VStr ''Nordeste'')) [21, 22, 23, 24, 25, 26, 27, 28, 29] @
     map (\<lambda>uf. (VNum uf, VStr ''Sudeste'')) [31, 32, 33, 35] @
     map (\<lambda>uf. (VNum uf, VStr ''Sul'')) [41, 42, 43] @
     map (\<lambda>uf. (VNum uf, VStr ''Centro-Oeste'')) [50, 51, 52, 53]"

text \<open>Municipality level: \<open>REGIAO = CO_UF.map(regioes)\<close>, NaN for an unknown state.\<close>

definition derivar_regiao :: "dataframe \<Rightarrow> dataframe" where
  "derivar_regiao df =
     (if ''CO_UF'' \<in> set (columns df)
      then set_col df ''REGIAO''
             (map (\<lambda>r. case map_of regioes (cell r ''CO_UF'') of
                          Some regiao \<Rightarrow> regiao | None \<Rightarrow> VNull) (rows df))
      else df)"

definition normalizar_variaveis :: "dataframe \<Rightarrow> mapeamentos \<Rightarrow> string \<Rightarrow> dataframe" where
  "normalizar_variaveis df m nivel =
     (let df_norm = renomear_colunas (colunas m) df;
          df_norm = normalizar_valores (case valores m of None \<Rightarrow> [] | Some vs \<Rightarrow> vs) df_norm
      in if nivel = ''escola'' then indice_infraestrutura df_norm
         else if nivel = ''municipio'' then derivar_regiao df_norm
         else df_norm)"

section \<open>Loading the processed sources\<close>

text \<open>
  The files under \<open>data/processed\<close>, named by what the f-strings put into the path.
  A file that exists is either a table \<open>read_csv\<close> returns or one on which it raises.
\<close>

datatype arquivo =
    Censo_escolar int string
  | Saeb int string
  | Pnad int
  | Indicadores string int
  | Dados_socioeconomicos

datatype conteudo = Csv dataframe | Ilegivel

type_synonym disco = "arquivo \<Rightarrow> conteudo option"

text \<open>
  The pattern shared by the loaders: the file exists and \<open>read_csv\<close> succeeds, or the
  loader logs and has no table (\<open>None\<close>).
\<close>

definition ler_csv :: "disco \<Rightarrow> arquivo \<Rightarrow> dataframe option" where
  "ler_csv d a = (case d a of Some (Csv df) \<Rightarrow> Some df | Some Ilegivel \<Rightarrow> None | None \<Rightarrow> None)"

definition carregar_censo_escolar :: "disco \<Rightarrow> int \<Rightarrow> string \<Rightarrow> dataframe option" where
  "carregar_censo_escolar d ano nivel =
     (if nivel = ''escola'' then ler_csv d (Censo_escolar ano ''agregado_escola'')
      else if nivel = ''municipio'' then ler_csv d (Censo_escolar ano ''agregado_municipio'')
      else if nivel = ''aluno'' then ler_csv d (Censo_escolar ano ''ensino_medio'')
      else None)"

text \<open>The dict of the tables that loaded, \<open>None\<close> when it is empty.\<close>

definition carregar_tipos :: "(string \<Rightarrow> arquivo) \<Rightarrow> disco \<Rightarrow> string list \<Rightarrow> (string \<times> dataframe) list option" where
  "carregar_tipos arq d tipos =
     (let dados = concat (map (\<lambda>tipo. case ler_csv d (arq tipo) of
                                         Some df \<Rightarrow> [(tipo, df)] | None \<Rightarrow> []) tipos)
      in if dados = [] then None else Some dados)"

definition carregar_saeb :: "disco \<Rightarrow> int \<Rightarrow> (string \<times> dataframe) list option" where
  "carregar_saeb d ano = carregar_tipos (Saeb ano) d [''escola'', ''aluno'', ''professor'', ''diretor'']"


definition carregar_indicadores_educacionais :: "disco \<Rightarrow> int \<Rightarrow> (string \<times> dataframe) list option" where
  "carregar_indicadores_educacionais d ano =
     carregar_tipos (\<lambda>tipo. Indicadores tipo ano) d
       [''rendimento'', ''distorcao'', ''docente'', ''complexidade'', ''inse'']"




section \<open>Integration at the school level\<close>

text \<open>SAEB runs in odd years: \<open>ano if ano % 2 == 1 else ano - 1\<close>.\<close>

definition ano_saeb :: "int \<Rightarrow> int" where
  "ano_saeb ano = (if ano mod 2 = 1 then ano else ano - 1)"

definition mapeamentos_censo_escola :: mapeamentos where
  "mapeamentos_censo_escola =
     \<lparr>colunas = None,
      valores = Some
        [(''TP_DEPENDENCIA'', [(VNum 1, VStr ''Federal''), (VNum 2, VStr ''Estadual''),
                               (VNum 3, VStr ''Municipal''), (VNum 4, VStr ''Privada'')]),
         (''TP_LOCALIZACAO'', [(VNum 1, VStr ''Urbana''), (VNum 2, VStr ''Rural'')])]\<rparr>"

text \<open>
  Step 4 of \<open>integrar_dados_nivel_escola\<close>: the SAEB school table, its identifier
  renamed when needed, restricted to the columns the census table does not have (and the
  key), is joined to the census table. The key's presence in the SAEB table is not
  checked before the join.
\<close>

definition codigo_escola_saeb :: "dataframe \<Rightarrow> dataframe" where
  "codigo_escola_saeb df0 =
     (if ''CO_ENTIDADE'' \<notin> set (columns df0) \<and> ''ID_ESCOLA'' \<in> set (columns df0)
      then rename_cols (\<lambda>c. if c = ''ID_ESCOLA'' then ''CO_ENTIDADE'' else c) df0
      else df0)"

definition integrar_saeb_escola :: "dataframe \<Rightarrow> (string \<times> dataframe) list option \<Rightarrow> error + dataframe" where
  "integrar_saeb_escola df_censo dados_saeb =
     (case dados_saeb of
        None \<Rightarrow> Inr df_censo
      | Some dados \<Rightarrow>
          (case map_of dados ''escola'' of
             None \<Rightarrow> Inr df_censo
           | Some df0 \<Rightarrow>
               (let df_saeb_escola = codigo_escola_saeb df0;
                    relevante = (\<lambda>col. col \<notin> set (columns df_censo) \<or> col = ''CO_ENTIDADE'');
                    colunas_saeb = filter relevante (columns df_saeb_escola)
                in if colunas_saeb \<noteq> []
                   then merge_left df_censo (select_cols relevante df_saeb_escola)
                          ''CO_ENTIDADE'' ''CO_ENTIDADE''
                   else Inr df_censo)))"

text \<open>
  The loop over \<open>indicadores.items()\<close>, written twice in the source, with
  \<open>CO_ENTIDADE\<close> at the school level and \<open>CO_MUNICIPIO\<close> at the municipality
  level: an indicator table that has the key and at least one new column is joined.
\<close>

fun integrar_indicadores :: "string \<Rightarrow> (string \<times> dataframe) list \<Rightarrow> dataframe \<Rightarrow> error + dataframe" where
  "integrar_indicadores chave [] df_integrado = Inr df_integrado"
| "integrar_indicadores chave ((tipo, df_ind) # resto) df_integrado =
     (if chave \<in> set (columns df_ind) then
        (let nova = (\<lambda>col. col \<notin> set (columns df_integrado) \<or> col = chave);
             colunas_ind = filter nova (columns df_ind)
         in if colunas_ind \<noteq> [] \<and> length colunas_ind > 1 then
              (case merge_left df_integrado (select_cols nova df_ind) chave chave of
                 Inl e \<Rightarrow> Inl e
               | Inr df' \<Rightarrow> integrar_indicadores chave resto df')
            else integrar_indicadores chave resto df_integrado)
      else integrar_indicadores chave resto df_integrado)"

text \<open>
  \<open>integrar_dados_nivel_escola\<close>: \<open>Inr None\<close> is the function's \<open>return None\<close>,
  \<open>Inl\<close> an exception that leaves it.
\<close>

definition integrar_dados_nivel_escola :: "disco \<Rightarrow> int \<Rightarrow> error + dataframe option" where
  "integrar_dados_nivel_escola d ano =
     (case carregar_censo_escolar d ano ''escola'' of
        None \<Rightarrow> Inr None
      | Some df0 \<Rightarrow>
          (let df_censo = normalizar_variaveis df0 mapeamentos_censo_escola ''escola''
           in case integrar_saeb_escola df_censo (carregar_saeb d (ano_saeb ano)) of
                Inl e \<Rightarrow> Inl e
              | Inr df_integrado \<Rightarrow>
                  (case carregar_indicadores_educacionais d ano of
                     None \<Rightarrow> Inr (Some df_integrado)
                   | Some indicadores \<Rightarrow>
                       (case integrar_indicadores ''CO_ENTIDADE'' indicadores df_integrado of
                          Inl e \<Rightarrow> Inl e
                        | Inr df \<Rightarrow> Inr (Some df)))))"

section \<open>Grouping and aggregation\<close>

text \<open>
  The order in which \<open>groupby\<close> sorts its keys: numbers by value and before text, text
  by code points. Missing keys are dropped before sorting.
\<close>

fun str_le :: "string \<Rightarrow> string \<Rightarrow> bool" where
  "str_le [] t = True"
| "str_le (c # s) [] = False"
| "str_le (c # s) (d # t) =
     ((of_char c :: nat) < of_char d \<or> (c = d \<and> str_le s t))"

fun val_le :: "val \<Rightarrow> val \<Rightarrow> bool" where
  "val_le (VNum a) (VNum b) = (a \<le> b)"
| "val_le (VNum a) (VStr t) = True"
| "val_le (VStr s) (VNum b) = False"
| "val_le (VStr s) (VStr t) = str_le s t"
| "val_le v VNull = True"
| "val_le VNull v = False"

fun inserir :: "val \<Rightarrow> val list \<Rightarrow> val list" where
  "inserir v [] = [v]"
| "inserir v (w # ws) = (if val_le v w then v # w # ws else w # inserir v ws)"

definition ordenar :: "val list \<Rightarrow> val list" where
  "ordenar vs = foldr inserir vs []"

text \<open>The group keys of \<open>df.groupby(chave)\<close>: the distinct present values, sorted.\<close>

definition chaves_grupos :: "dataframe \<Rightarrow> string \<Rightarrow> val list" where
  "chaves_grupos df chave = ordenar (remdups (filter (\<lambda>v. v \<noteq> VNull) (key_values df chave)))"

datatype agg_op = First | Mean | Count | Nunique

text \<open>
  The reductions of \<open>agg\<close> on the values of one column within one group:
  \<open>'first'\<close> is the first present value, \<open>'mean'\<close> skips missing values and raises
  on text, \<open>'count'\<close> counts the present values, \<open>'nunique'\<close> the distinct ones.
\<close>

fun agregar :: "agg_op \<Rightarrow> val list \<Rightarrow> error + val" where
  "agregar First vs = Inr (case filter (\<lambda>v. v \<noteq> VNull) vs of [] \<Rightarrow> VNull | v # _ \<Rightarrow> v)"
| "agregar Mean vs = (if list_ex is_text vs then Inl TypeError else Inr (media vs))"
| "agregar Count vs = Inr (VNum (of_nat (length (filter (\<lambda>v. v \<noteq> VNull) vs))))"
| "agregar Nunique vs = Inr (VNum (of_nat (length (remdups (filter (\<lambda>v. v \<noteq> VNull) vs)))))"

text \<open>
  \<open>df.groupby(chave).agg(spec).reset_index()\<close>: one row per group key, the key first,
  then the reduced columns in the order of the dict.
\<close>

definition groupby_agg :: "dataframe \<Rightarrow> string \<Rightarrow> (string \<times> agg_op) list \<Rightarrow> error + dataframe" where
  "groupby_agg df chave spec =
     (if chave \<notin> set (columns df) then Inl (KeyError chave)
      else case find (\<lambda>(c, op). c \<notin> set (columns df)) spec of
             Some (c, op) \<Rightarrow> Inl (KeyError c)
           | None \<Rightarrow>
               (case mapM (\<lambda>k.
                       (let grupo = filter (\<lambda>r. cell r chave = k) (rows df)
                        in case mapM (\<lambda>(c, op).
                                  case agregar op (map (\<lambda>r. cell r c) grupo) of
                                    Inl e \<Rightarrow> Inl e | Inr v \<Rightarrow> Inr (c, v)) spec of
                             Inl e \<Rightarrow> Inl e
                           | Inr cells \<Rightarrow> Inr ((chave, k) # cells)))
                     (chaves_grupos df chave) of
                  Inl e \<Rightarrow> Inl e
                | Inr rs \<Rightarrow> Inr \<lparr>columns = chave # map fst spec, rows = rs\<rparr>))"

section \<open>Integration at the municipality level\<close>



section \<open>Aggregation of the census by school and by municipality\<close>

text \<open>
  Steps 3 and 4 of \<open>processar_censo_escolar\<close> (censo_escolar.py): the aggregate and the
  renaming of its columns. The rate column is the mean of the \<open>ABANDONO\<close> flag as
  \<open>agg\<close> returns it.
\<close>

definition renomear_agregado :: "string \<Rightarrow> string" where
  "renomear_agregado c =
     (if c = ''ABANDONO'' then ''TAXA_ABANDONO''
      else if c = ''NU_ANO_CENSO'' then ''TOTAL_ALUNOS''
      else c)"

definition renomear_agregado_municipio :: "string \<Rightarrow> string" where
  "renomear_agregado_municipio c =
     (if c = ''ABANDONO'' then ''TAXA_ABANDONO''
      else if c = ''NU_ANO_CENSO'' then ''TOTAL_ALUNOS''
      else if c = ''CO_ENTIDADE'' then ''TOTAL_ESCOLAS''
      else c)"

definition agregado_escola :: "dataframe \<Rightarrow> error + dataframe" where
  "agregado_escola df_ensino_medio =
     (case groupby_agg df_ensino_medio ''CO_ENTIDADE''
             [(''CO_MUNICIPIO'', First), (''CO_UF'', First), (''TP_DEPENDENCIA'', First),
              (''TP_LOCALIZACAO'', First), (''ABANDONO'', Mean), (''NU_ANO_CENSO'', Count)] of
        Inl e \<Rightarrow> Inl e
      | Inr df \<Rightarrow> Inr (rename_cols renomear_agregado df))"

definition agregado_municipio :: "dataframe \<Rightarrow> error + dataframe" where
  "agregado_municipio df_ensino_medio =
     (case groupby_agg df_ensino_medio ''CO_MUNICIPIO''
             [(''CO_UF'', First), (''ABANDONO'', Mean), (''NU_ANO_CENSO'', Count),
              (''CO_ENTIDADE'', Nunique)] of
        Inl e \<Rightarrow> Inl e
      | Inr df \<Rightarrow> Inr (rename_cols renomear_agregado_municipio df))"

text \<open>\<open>series * 100\<close> on one value; Python repeats a string.\<close>

fun vezes_100 :: "val \<Rightarrow> val" where
  "vezes_100 (VNum x) = VNum (x * 100)"
| "vezes_100 VNull = VNull"
| "vezes_100 (VStr s) = VStr (concat (replicate 100 s))"

text \<open>
  Sections 5.1 and 5.2 of the integration notebook: the same aggregates (with the
  labelled columns \<open>DEPENDENCIA\<close> and \<open>LOCALIZACAO\<close>), the same renaming, and then
  the conversion of the rate to a percentage.
\<close>

definition df_escola :: "dataframe \<Rightarrow> error + dataframe" where
  "df_escola df_censo =
     (case groupby_agg df_censo ''CO_ENTIDADE''
             [(''CO_MUNICIPIO'', First), (''CO_UF'', First), (''DEPENDENCIA'', First),
              (''LOCALIZACAO'', First), (''ABANDONO'', Mean), (''NU_ANO_CENSO'', Count)] of
        Inl e \<Rightarrow> Inl e
      | Inr df \<Rightarrow>
          (let df = rename_cols renomear_agregado df
           in Inr (set_col df ''TAXA_ABANDONO''
                     (map (\<lambda>r. vezes_100 (cell r ''TAXA_ABANDONO'')) (rows df)))))"

definition df_municipio :: "dataframe \<Rightarrow> error + dataframe" where
  "df_municipio df_censo =
     (case groupby_agg df_censo ''CO_MUNICIPIO''
             [(''CO_UF'', First), (''ABANDONO'', Mean), (''NU_ANO_CENSO'', Count),
              (''CO_ENTIDADE'', Nunique)] of
        Inl e \<Rightarrow> Inl e
      | Inr df \<Rightarrow>
          (let df = rename_cols renomear_agregado_municipio df
           in Inr (set_col df ''TAXA_ABANDONO''
                     (map (\<lambda>r. vezes_100 (cell r ''TAXA_ABANDONO'')) (rows df)))))"

section \<open>Quality checks of the integration notebook (section 6)\<close>

text \<open>What \<open>log_message\<close> prints: the level and the message, with the number it carries.\<close>

datatype nivel_log = INFO | WARNING

datatype mensagem =
    Verificando_valores_ausentes
  | Tratando_valores_ausentes
  | Valores_ausentes_tratados
  | Verificando_consistencia
  | Taxas_invalidas nat

type_synonym registro = "nivel_log \<times> mensagem"

text \<open>\<open>round(2)\<close>: to two decimals, a tie going to the even neighbour.\<close>

definition arredondar_2 :: "rat \<Rightarrow> rat" where
  "arredondar_2 x =
     (let y = x * 100; f = \<lfloor>y\<rfloor>; resto = y - of_int f
      in of_int (if resto < 1 / 2 then f
                 else if resto > 1 / 2 then f + 1
                 else if even f then f else f + 1) / 100)"

text \<open>\<open>df[c].isnull().sum()\<close>.\<close>

definition contar_ausentes :: "dataframe \<Rightarrow> string \<Rightarrow> nat" where
  "contar_ausentes df c = length (filter (\<lambda>r. cell r c = VNull) (rows df))"

text \<open>
  \<open>missing_df\<close>: for each column the count of missing values and the percentage;
  the percentage of a frame without rows is NaN (\<open>None\<close>).
\<close>

definition missing_df :: "dataframe \<Rightarrow> (string \<times> nat \<times> rat option) list" where
  "missing_df df =
     map (\<lambda>c. (c, contar_ausentes df c,
                 if rows df = [] then None
                 else Some (arredondar_2 (of_nat (contar_ausentes df c) / of_nat (length (rows df)) * 100))))
         (columns df)"

text \<open>\<open>series.fillna(m)\<close> on one value; filling with NaN changes nothing.\<close>

definition fillna :: "val \<Rightarrow> val \<Rightarrow> val" where
  "fillna m v = (if v = VNull then m else v)"

text \<open>
  Section 6.1 after the load check: the report is built and printed (the rows with a
  positive count), and when any value is missing each numeric column with a missing value
  is filled with its mean (\<open>tratar_coluna\<close> is the body of that loop). The result is
  the log, the printed report and the frame as the section leaves it.
\<close>

definition tratar_coluna :: "string \<Rightarrow> dataframe \<Rightarrow> dataframe" where
  "tratar_coluna col d =
     (if contar_ausentes d col > 0
      then set_col d col
             (map (\<lambda>r. fillna (media (map (\<lambda>r'. cell r' col) (rows d))) (cell r col)) (rows d))
      else d)"

definition tratar_ausentes :: "dataframe \<Rightarrow> dataframe" where
  "tratar_ausentes df = fold tratar_coluna (filter (dtype_numerico df) (columns df)) df"

definition verificar_valores_ausentes :: "dataframe \<Rightarrow> registro list \<times> (string \<times> nat \<times> rat option) list \<times> dataframe" where
  "verificar_valores_ausentes df =
     (let relatorio = missing_df df;
          impresso = filter (\<lambda>(c, n, p). n > 0) relatorio
      in if sum_list (map (\<lambda>(c, n, p). n) relatorio) > 0
         then ([(INFO, Verificando_valores_ausentes), (INFO, Tratando_valores_ausentes),
                (INFO, Valores_ausentes_tratados)], impresso, tratar_ausentes df)
         else ([(INFO, Verificando_valores_ausentes)], impresso, df))"

text \<open>\<open>series.clip(0, 100)\<close> on one value of a numeric column; NaN stays NaN.\<close>

fun clip_0_100 :: "val \<Rightarrow> val" where
  "clip_0_100 (VNum x) = VNum (min 100 (max 0 x))"
| "clip_0_100 v = v"

text \<open>\<open>(x < 0) | (x > 100)\<close> on one value; every comparison with NaN is false.\<close>

fun fora_do_intervalo :: "val \<Rightarrow> bool" where
  "fora_do_intervalo (VNum x) = (x < 0 \<or> x > 100)"
| "fora_do_intervalo v = False"

text \<open>
  The bounds check of section 6.2: the invalid rates are counted; when there is one, a
  warning carries the count and the column is clipped. Comparing a textual column with a
  number raises. The correlation sign check that follows only logs and is not modelled.
\<close>

definition verificar_taxas :: "dataframe \<Rightarrow> error + (registro list \<times> dataframe)" where
  "verificar_taxas df =
     (if ''TAXA_ABANDONO'' \<notin> set (columns df) then Inl (KeyError ''TAXA_ABANDONO'')
      else if list_ex (\<lambda>r. is_text (cell r ''TAXA_ABANDONO'')) (rows df) then Inl TypeError
      else
        (let taxa_invalida = length (filter (\<lambda>r. fora_do_intervalo (cell r ''TAXA_ABANDONO'')) (rows df))
         in if taxa_invalida > 0
            then Inr ([(INFO, Verificando_consistencia), (WARNING, Taxas_invalidas taxa_invalida)],
                      set_col df ''TAXA_ABANDONO''
                        (map (\<lambda>r. clip_0_100 (cell r ''TAXA_ABANDONO'')) (rows df)))
            else Inr ([(INFO, Verificando_consistencia)], df)))"

section \<open>Indicator derivation: expected age and age-grade distortion\<close>

text \<open>
  \<open>idade_esperada\<close>, the local function of \<open>integrar_dados_nivel_aluno\<close>
  (integracao_bases.py); the notebook's \<open>calcular_distorcao\<close> has the same chain.
  \<open>etapa in [25, ...]\<close> compares by value, so a missing or textual code is in no list.
\<close>

definition idade_esperada :: "val \<Rightarrow> int" where
  "idade_esperada etapa =
     (if etapa \<in> set (map VNum [25, 26, 30, 31, 35, 36]) then 15
      else if etapa \<in> set (map VNum [27, 28, 32, 37]) then 16
      else if etapa \<in> set (map VNum [29, 33, 38]) then 17
      else 16)"

text \<open>Series subtraction: NaN propagates, text raises.\<close>

fun sub_val :: "val \<Rightarrow> val \<Rightarrow> error + val" where
  "sub_val (VNum a) (VNum b) = Inr (VNum (a - b))"
| "sub_val (VStr s) _ = Inl TypeError"
| "sub_val _ (VStr s) = Inl TypeError"
| "sub_val _ _ = Inr VNull"

text \<open>\<open>Series.clip(lower=l)\<close> on one value; NaN stays NaN.\<close>

fun clip_lower :: "rat \<Rightarrow> val \<Rightarrow> error + val" where
  "clip_lower l (VNum x) = Inr (VNum (max l x))"
| "clip_lower l VNull = Inr VNull"
| "clip_lower l (VStr s) = Inl TypeError"

text \<open>
  Step 5 of \<open>integrar_dados_nivel_aluno\<close>: when both columns exist, add
  \<open>IDADE_ESPERADA\<close>, then \<open>DISTORCAO_IDADE_SERIE\<close> as the difference, then clip
  the difference at zero.
\<close>

definition derivar_distorcao :: "dataframe \<Rightarrow> error + dataframe" where
  "derivar_distorcao df =
     (if ''NU_IDADE'' \<in> set (columns df) \<and> ''TP_ETAPA_ENSINO'' \<in> set (columns df) then
        (let df1 = set_col df ''IDADE_ESPERADA''
                     (map (\<lambda>r. VNum (of_int (idade_esperada (cell r ''TP_ETAPA_ENSINO''))))
                          (rows df))
         in case mapM (\<lambda>r. sub_val (cell r ''NU_IDADE'') (cell r ''IDADE_ESPERADA'')) (rows df1) of
              Inl e \<Rightarrow> Inl e
            | Inr ds \<Rightarrow>
                (let df2 = set_col df1 ''DISTORCAO_IDADE_SERIE'' ds
                 in case mapM (\<lambda>r. clip_lower 0 (cell r ''DISTORCAO_IDADE_SERIE'')) (rows df2) of
                      Inl e \<Rightarrow> Inl e
                    | Inr cs \<Rightarrow> Inr (set_col df2 ''DISTORCAO_IDADE_SERIE'' cs)))
      else Inr df)"

text \<open>
  The notebook's row function \<open>calcular_distorcao\<close>, on a row whose age is a number:
  \<open>max(0, idade - idade_esperada)\<close>.
\<close>

definition calcular_distorcao :: "rat \<Rightarrow> val \<Rightarrow> rat" where
  "calcular_distorcao idade serie =
     (let idade_esperada =
            (if serie \<in> set (map VNum [25, 26, 30, 31, 35, 36]) then 15
             else if serie \<in> set (map VNum [27, 28, 32, 37]) then 16
             else if serie \<in> set (map VNum [29, 33, 38]) then 17
             else (16::rat))
      in max 0 (idade - idade_esperada))"

section \<open>Example data\<close>

text \<open>Two students: aged 18 in a first-year stage, aged 15 in a third-year stage.\<close>

definition alunos_exemplo :: dataframe where
  "alunos_exemplo =
     \<lparr>columns = [''NU_IDADE'', ''TP_ETAPA_ENSINO''],
      rows = [[(''NU_IDADE'', VNum 18), (''TP_ETAPA_ENSINO'', VNum 25)],
              [(''NU_IDADE'', VNum 15), (''TP_ETAPA_ENSINO'', VNum 29)]]\<rparr>"

text \<open>
  One school in the census table, and a SAEB school table with two rows for that school
  that differ in another column.
\<close>

definition censo_uma_escola :: dataframe where
  "censo_uma_escola =
     \<lparr>columns = [''CO_ENTIDADE'', ''TAXA_ABANDONO''],
      rows = [[(''CO_ENTIDADE'', VNum 1), (''TAXA_ABANDONO'', VNum 20)]]\<rparr>"

definition saeb_duplicado :: dataframe where
  "saeb_duplicado =
     \<lparr>columns = [''CO_ENTIDADE'', ''NOTA''],
      rows = [[(''CO_ENTIDADE'', VNum 1), (''NOTA'', VNum 250)],
              [(''CO_ENTIDADE'', VNum 1), (''NOTA'', VNum 300)]]\<rparr>"

definition disco_duplicado :: disco where
  "disco_duplicado =
     (\<lambda>a. None)(Censo_escolar 2021 ''agregado_escola'' \<mapsto> Csv censo_uma_escola,
                Saeb 2021 ''escola'' \<mapsto> Csv saeb_duplicado)"

text \<open>The number of rows whose cell in column \<open>c\<close> differs between two frames.\<close>

definition n_alteradas :: "dataframe \<Rightarrow> dataframe \<Rightarrow> string \<Rightarrow> nat" where
  "n_alteradas df df' c =
     length (filter (\<lambda>i. cell (rows df' ! i) c \<noteq> cell (rows df ! i) c) [0..<length (rows df)])"

text \<open>Three municipalities whose rates are 120, -5 and 50.\<close>

definition municipios_taxas :: dataframe where
  "municipios_taxas =
     \<lparr>columns = [''CO_MUNICIPIO'', ''TAXA_ABANDONO''],
      rows = [[(''CO_MUNICIPIO'', VNum 1), (''TAXA_ABANDONO'', VNum 120)],
              [(''CO_MUNICIPIO'', VNum 2), (''TAXA_ABANDONO'', VNum (- 5))],
              [(''CO_MUNICIPIO'', VNum 3), (''TAXA_ABANDONO'', VNum 50)]]\<rparr>"

text \<open>
  What one pass of the value loop does to a row: every cell of column \<open>c\<close> becomes
  \<open>f\<close> of the row's value in that column.
\<close>

definition mapear_linha :: "string \<Rightarrow> (val \<Rightarrow> val) \<Rightarrow> row \<Rightarrow> row" where
  "mapear_linha c f r = map (\<lambda>(k, x). (k, if k = c then f (cell r c) else x)) r"

text \<open>The passes of the loop on one row of a frame with the columns \<open>cols\<close>.\<close>

definition normalizar_linha :: "string list \<Rightarrow> (string \<times> (val \<times> val) list) list \<Rightarrow> row \<Rightarrow> row" where
  "normalizar_linha cols vs r =
     fold (\<lambda>(c, m) r. if c \<in> set cols then mapear_linha c (mapear_valor m) r else r) vs r"

text \<open>
  Two schools as the census aggregate has them: one federal and urban, one with a
  dependency code the dict does not know and no location.
\<close>

definition escolas_codigos :: dataframe where
  "escolas_codigos =
     \<lparr>columns = [''CO_ENTIDADE'', ''TP_DEPENDENCIA'', ''TP_LOCALIZACAO''],
      rows = [[(''CO_ENTIDADE'', VNum 1), (''TP_DEPENDENCIA'', VNum 1), (''TP_LOCALIZACAO'', VNum 1)],
              [(''CO_ENTIDADE'', VNum 2), (''TP_DEPENDENCIA'', VNum 9), (''TP_LOCALIZACAO'', VNull)]]\<rparr>"

definition valores_censo_escola :: "(string \<times> (val \<times> val) list) list" where
  "valores_censo_escola = (case valores mapeamentos_censo_escola of Some vs \<Rightarrow> vs | None \<Rightarrow> [])"




text \<open>Three municipalities, the second without an IDEB value; the name column is text.\<close>

definition municipios_ideb :: dataframe where
  "municipios_ideb =
     \<lparr>columns = [''NO_MUNICIPIO'', ''IDEB''],
      rows = [[(''NO_MUNICIPIO'', VStr ''A''), (''IDEB'', VNum 4)],
              [(''NO_MUNICIPIO'', VNull), (''IDEB'', VNull)],
              [(''NO_MUNICIPIO'', VStr ''C''), (''IDEB'', VNum 6)]]\<rparr>"

text \<open>
  The scenario of three schools: A with 10 students of whom 2 dropped out, B with 5 and
  none, C with 8 and 4. A student row carries the coded and the labelled columns, so that
  the script and the notebook can both aggregate it.
\<close>

definition aluno :: "string \<Rightarrow> rat \<Rightarrow> row" where
  "aluno escola abandono =
     [(''CO_ENTIDADE'', VStr escola), (''CO_MUNICIPIO'', VNum 3550308), (''CO_UF'', VNum 35),
      (''TP_DEPENDENCIA'', VNum 2), (''TP_LOCALIZACAO'', VNum 1),
      (''DEPENDENCIA'', VStr ''Estadual''), (''LOCALIZACAO'', VStr ''Urbana''),
      (''ABANDONO'', VNum abandono), (''NU_ANO_CENSO'', VNum 2022)]"

definition tres_escolas :: dataframe where
  "tres_escolas =
     \<lparr>columns = [''CO_ENTIDADE'', ''CO_MUNICIPIO'', ''CO_UF'', ''TP_DEPENDENCIA'', ''TP_LOCALIZACAO'',
                 ''DEPENDENCIA'', ''LOCALIZACAO'', ''ABANDONO'', ''NU_ANO_CENSO''],
      rows = replicate 2 (aluno ''A'' 1) @ replicate 8 (aluno ''A'' 0) @
             replicate 5 (aluno ''B'' 0) @
             replicate 4 (aluno ''C'' 1) @ replicate 4 (aluno ''C'' 0)\<rparr>"

text \<open>
  The rows of \<open>R\<close> are the rows of \<open>P\<close>, one for one and in order, each with cells
  added to the right and nothing else changed.
\<close>

definition linhas_estendidas :: "dataframe \<Rightarrow> dataframe \<Rightarrow> bool" where
  "linhas_estendidas P R = list_all2 (\<lambda>p r. take (length p) r = p) (rows P) (rows R)"


text \<open>
  A disk for the school level: two schools in the census aggregate, a SAEB table that
  knows only the first (under the name \<open>ID_ESCOLA\<close>), an indicator table for both.
\<close>

definition censo_duas_escolas :: dataframe where
  "censo_duas_escolas =
     \<lparr>columns = [''CO_ENTIDADE'', ''TP_DEPENDENCIA'', ''TAXA_ABANDONO''],
      rows = [[(''CO_ENTIDADE'', VNum 1), (''TP_DEPENDENCIA'', VNum 2), (''TAXA_ABANDONO'', VNum 20)],
              [(''CO_ENTIDADE'', VNum 2), (''TP_DEPENDENCIA'', VNum 3), (''TAXA_ABANDONO'', VNum 0)]]\<rparr>"

definition saeb_uma_escola :: dataframe where
  "saeb_uma_escola =
     \<lparr>columns = [''ID_ESCOLA'', ''NOTA''],
      rows = [[(''ID_ESCOLA'', VNum 1), (''NOTA'', VNum 250)]]\<rparr>"

definition inse_duas_escolas :: dataframe where
  "inse_duas_escolas =
     \<lparr>columns = [''CO_ENTIDADE'', ''INSE''],
      rows = [[(''CO_ENTIDADE'', VNum 2), (''INSE'', VNum 5)],
              [(''CO_ENTIDADE'', VNum 1), (''INSE'', VNum 4)]]\<rparr>"

definition disco_escolas :: disco where
  "disco_escolas =
     (\<lambda>a. None)(Censo_escolar 2021 ''agregado_escola'' \<mapsto> Csv censo_duas_escolas,
                Saeb 2021 ''escola'' \<mapsto> Csv saeb_uma_escola,
                Indicadores ''inse'' 2021 \<mapsto> Csv inse_duas_escolas)"

definition escolas_integradas :: dataframe where
  "escolas_integradas =
     \<lparr>columns = [''CO_ENTIDADE'', ''TP_DEPENDENCIA'', ''TAXA_ABANDONO'', ''NOTA'', ''INSE''],
      rows = [[(''CO_ENTIDADE'', VNum 1), (''TP_DEPENDENCIA'', VStr ''Estadual''),
               (''TAXA_ABANDONO'', VNum 20), (''NOTA'', VNum 250), (''INSE'', VNum 4)],
              [(''CO_ENTIDADE'', VNum 2), (''TP_DEPENDENCIA'', VStr ''Municipal''),
               (''TAXA_ABANDONO'', VNum 0), (''NOTA'', VNull), (''INSE'', VNum 5)]]\<rparr>"





section \<open>Properties\<close>

subsection \<open>Series and column access\<close>

lemma mapM_total:
  "(\<And>x. x \<in> set xs \<Longrightarrow> f x = Inr (g x)) \<Longrightarrow> mapM f xs = Inr (map g xs)"
  by (induction xs) auto

lemma length_rows_set_col:
  "length vs = length (rows df) \<Longrightarrow> length (rows (set_col df c vs)) = length (rows df)"
  by (simp add: set_col_def)

lemma columns_set_col:
  "set (columns (set_col df c vs)) = insert c (set (columns df))"
  by (auto simp: set_col_def)

lemma wf_set_col:
  assumes "wf_df df" "length vs = length (rows df)"
  shows "wf_df (set_col df c vs)"
proof -
  have *: "fst \<circ> (\<lambda>(k, x). (k, if k = c then v else x)) = fst" for v :: val
    by (auto simp: fun_eq_iff)
  show ?thesis
    using assms
    by (auto simp: wf_df_def set_col_def list_all_iff * set_zip)
qed

lemma map_of_overwrite:
  "map_of (map (\<lambda>(k, x). (k, if k = c then v else x)) r) k
     = (if k = c then map_option (\<lambda>_. v) (map_of r k) else map_of r k)"
  by (induction r) auto

lemma cell_set_col:
  assumes "wf_df df" "length vs = length (rows df)" "i < length (rows df)"
  shows "cell (rows (set_col df c vs) ! i) k = (if k = c then vs ! i else cell (rows df ! i) k)"
proof -
  have fst: "map fst (rows df ! i) = columns df"
    using assms by (simp add: wf_df_def list_all_length)
  show ?thesis
  proof (cases "c \<in> set (columns df)")
    case True
    then have "c \<in> fst ` set (rows df ! i)" using fst by (metis set_map)
    then obtain x where "map_of (rows df ! i) c = Some x"
      by (metis domIff dom_map_of_conv_image_fst not_Some_eq)
    then show ?thesis using True assms
      by (simp add: set_col_def cell_def map_of_overwrite)
  next
    case False
    then have "c \<notin> fst ` set (rows df ! i)" using fst by (metis set_map)
    then have "map_of (rows df ! i) c = None"
      by (simp add: map_of_eq_None_iff)
    then show ?thesis using False assms
      by (auto simp: set_col_def cell_def map_add_def split: option.splits)
  qed
qed





subsection \<open>Expected age for the grade\<close>

text \<open>
  Claim C6. The expected age is a function of the education-stage code alone, with three
  bands: the first-year codes give 15, the second-year codes 16, the third-year codes 17,
  and every other code (a missing one too) gives the default 16. The notebook's
  \<open>calcular_distorcao\<close> uses the same expected age.
\<close>

theorem idade_esperada_bands:
  "(etapa \<in> VNum ` {25, 26, 30, 31, 35, 36} \<longrightarrow> idade_esperada etapa = 15) \<and>
   (etapa \<in> VNum ` {27, 28, 32, 37} \<longrightarrow> idade_esperada etapa = 16) \<and>
   (etapa \<in> VNum ` {29, 33, 38} \<longrightarrow> idade_esperada etapa = 17) \<and>
   (etapa \<notin> VNum ` {25, 26, 30, 31, 35, 36, 27, 28, 32, 37, 29, 33, 38}
      \<longrightarrow> idade_esperada etapa = 16) \<and>
   idade_esperada etapa \<in> {15, 16, 17} \<and>
   calcular_distorcao idade etapa = max 0 (idade - of_int (idade_esperada etapa))"
  by (auto simp: idade_esperada_def calcular_distorcao_def)

theorem idade_esperada_bands_witness:
  "VNum 25 \<in> VNum ` {25, 26, 30, 31, 35, 36} \<and> idade_esperada (VNum 25) = 15 \<and>
   VNum 28 \<in> VNum ` {27, 28, 32, 37} \<and> idade_esperada (VNum 28) = 16 \<and>
   VNum 33 \<in> VNum ` {29, 33, 38} \<and> idade_esperada (VNum 33) = 17 \<and>
   VNum 34 \<notin> VNum ` {25, 26, 30, 31, 35, 36, 27, 28, 32, 37, 29, 33, 38} \<and>
   idade_esperada (VNum 34) = 16 \<and>
   VNull \<notin> VNum ` {25, 26, 30, 31, 35, 36, 27, 28, 32, 37, 29, 33, 38} \<and>
   idade_esperada VNull = 16"
  using idade_esperada_bands [of "VNum 25"] idade_esperada_bands [of "VNum 28"]
    idade_esperada_bands [of "VNum 33"] idade_esperada_bands [of "VNum 34"]
    idade_esperada_bands [of VNull]
  by simp

subsection \<open>Age-grade distortion\<close>


lemma derivar_distorcao_exemplo:
  "derivar_distorcao alunos_exemplo =
     Inr \<lparr>columns = [''NU_IDADE'', ''TP_ETAPA_ENSINO'', ''IDADE_ESPERADA'', ''DISTORCAO_IDADE_SERIE''],
          rows = [[(''NU_IDADE'', VNum 18), (''TP_ETAPA_ENSINO'', VNum 25),
                   (''IDADE_ESPERADA'', VNum 15), (''DISTORCAO_IDADE_SERIE'', VNum 3)],
                  [(''NU_IDADE'', VNum 15), (''TP_ETAPA_ENSINO'', VNum 29),
                   (''IDADE_ESPERADA'', VNum 17), (''DISTORCAO_IDADE_SERIE'', VNum 0)]]\<rparr>"
  by (simp add: derivar_distorcao_def alunos_exemplo_def set_col_def cell_def idade_esperada_def Let_def)


subsection \<open>The left join\<close>

lemma merge_left_Inr:
  assumes "lk \<in> set (columns P)" "rk \<in> set (columns S)"
  shows "\<exists>R. merge_left P S lk rk = Inr R"
  using assms by (simp add: merge_left_def Let_def)

lemma filter_key_unique:
  assumes "distinct (map f xs)"
  shows "length (filter (\<lambda>x. f x = v) xs) \<le> 1"
  using assms
proof (induction xs)
  case Nil
  then show ?case by simp
next
  case (Cons x xs)
  show ?case
  proof (cases "f x = v")
    case True
    then have "v \<notin> f ` set xs" using Cons.prems by auto
    then have "filter (\<lambda>x. f x = v) xs = []" by (auto simp: filter_empty_conv)
    then show ?thesis using True by simp
  next
    case False
    then show ?thesis using Cons by simp
  qed
qed

lemma length_concat_singletons:
  assumes "\<And>x. x \<in> set xs \<Longrightarrow> length (f x) = 1"
  shows "length (concat (map f xs)) = length xs"
  using assms by (induction xs) auto








lemma cell_filter_cols:
  "p k \<Longrightarrow> cell (filter (\<lambda>(k, x). p k) r) k = cell r k"
  by (induction r) (auto simp: cell_def)

lemma key_values_select_cols:
  "p k \<Longrightarrow> key_values (select_cols p S) k = key_values S k"
  by (simp add: key_values_def select_cols_def cell_filter_cols comp_def)


lemma columns_select_cols: "columns (select_cols p S) = filter p (columns S)"
  by (simp add: select_cols_def)


subsection \<open>Joins on a secondary table with repeated keys\<close>

lemma normalizar_censo_uma_escola:
  "normalizar_variaveis censo_uma_escola mapeamentos_censo_escola ''escola'' = censo_uma_escola"
  by (simp add: normalizar_variaveis_def mapeamentos_censo_escola_def renomear_colunas_def
      normalizar_valores_def indice_infraestrutura_def censo_uma_escola_def Let_def)

lemma carregar_disco_duplicado:
  "carregar_censo_escolar disco_duplicado 2021 ''escola'' = Some censo_uma_escola"
  "carregar_saeb disco_duplicado (ano_saeb 2021) = Some [(''escola'', saeb_duplicado)]"
  "carregar_indicadores_educacionais disco_duplicado 2021 = None"
  by (simp_all add: carregar_censo_escolar_def carregar_saeb_def carregar_tipos_def ler_csv_def
      carregar_indicadores_educacionais_def disco_duplicado_def ano_saeb_def)





subsection \<open>Bounds check of the rates\<close>

lemma fora_do_intervalo_clip: "fora_do_intervalo v \<longleftrightarrow> clip_0_100 v \<noteq> v"
  by (cases v) (auto simp: min_def max_def)

lemma clip_0_100_range: "clip_0_100 (VNum x) = VNum y \<Longrightarrow> 0 \<le> y \<and> y \<le> 100"
  by (auto simp: min_def max_def)

lemma length_filter_nth:
  "length (filter (\<lambda>i. P (xs ! i)) [0..<length xs]) = length (filter P xs)"
proof -
  have "filter P xs = filter P (map (\<lambda>i. xs ! i) [0..<length xs])"
    by (simp add: map_nth)
  also have "\<dots> = map (\<lambda>i. xs ! i) (filter (\<lambda>i. P (xs ! i)) [0..<length xs])"
    by (simp add: filter_map comp_def)
  finally show ?thesis by simp
qed

lemma verificar_taxas_result:
  assumes wf: "wf_df df" and col: "''TAXA_ABANDONO'' \<in> set (columns df)"
    and num: "\<forall>r \<in> set (rows df). \<not> is_text (cell r ''TAXA_ABANDONO'')"
  shows "\<exists>df'. verificar_taxas df =
             Inr ((INFO, Verificando_consistencia) #
                    (let n = length (filter (\<lambda>r. fora_do_intervalo (cell r ''TAXA_ABANDONO'')) (rows df))
                     in if n > 0 then [(WARNING, Taxas_invalidas n)] else []), df') \<and>
           length (rows df') = length (rows df) \<and> columns df' = columns df \<and>
           (\<forall>i<length (rows df). \<forall>k. cell (rows df' ! i) k =
               (if k = ''TAXA_ABANDONO'' then clip_0_100 (cell (rows df ! i) k)
                else cell (rows df ! i) k))"
proof -
  let ?T = "''TAXA_ABANDONO''"
  let ?n = "length (filter (\<lambda>r. fora_do_intervalo (cell r ?T)) (rows df))"
  have nt: "\<not> list_ex (\<lambda>r. is_text (cell r ?T)) (rows df)"
    using num by (simp add: list_ex_iff)
  show ?thesis
  proof (cases "?n > 0")
    case True
    let ?vs = "map (\<lambda>r. clip_0_100 (cell r ?T)) (rows df)"
    have l: "length ?vs = length (rows df)" by simp
    have "verificar_taxas df =
            Inr ([(INFO, Verificando_consistencia), (WARNING, Taxas_invalidas ?n)], set_col df ?T ?vs)"
      using True col nt by (simp add: verificar_taxas_def Let_def)
    moreover have "columns (set_col df ?T ?vs) = columns df"
      using col by (simp add: set_col_def)
    moreover have "cell (rows (set_col df ?T ?vs) ! i) k =
               (if k = ?T then clip_0_100 (cell (rows df ! i) k) else cell (rows df ! i) k)"
      if "i < length (rows df)" for i k
      using cell_set_col[OF wf l that, of ?T k] that by simp
    ultimately show ?thesis
      using True by (simp add: Let_def length_rows_set_col)
  next
    case False
    then have none: "\<forall>r \<in> set (rows df). \<not> fora_do_intervalo (cell r ?T)"
      by (simp add: filter_empty_conv)
    have "verificar_taxas df = Inr ([(INFO, Verificando_consistencia)], df)"
      using False col nt by (simp add: verificar_taxas_def Let_def)
    moreover have "clip_0_100 (cell (rows df ! i) ?T) = cell (rows df ! i) ?T"
      if "i < length (rows df)" for i
      using none that by (simp add: fora_do_intervalo_clip)
    ultimately show ?thesis
      using False by (simp add: Let_def)
  qed
qed

text \<open>
  Claim C4. On an integrated table whose \<open>TAXA_ABANDONO\<close> column is numeric, the bounds
  check succeeds; afterwards every rate lies in \<open>[0, 100]\<close> and is the clamped value of
  the rate before, the other columns are unchanged, and when some row was clamped the log
  has a warning that carries the number of clamped rows (and no warning otherwise).
\<close>

theorem taxas_limitadas:
  assumes "wf_df df" and "''TAXA_ABANDONO'' \<in> set (columns df)"
    and "\<forall>r \<in> set (rows df). \<not> is_text (cell r ''TAXA_ABANDONO'')"
  shows "\<exists>logs df'. verificar_taxas df = Inr (logs, df') \<and>
           length (rows df') = length (rows df) \<and>
           (\<forall>i<length (rows df). \<forall>x. cell (rows df ! i) ''TAXA_ABANDONO'' = VNum x \<longrightarrow>
              (\<exists>y. cell (rows df' ! i) ''TAXA_ABANDONO'' = VNum y \<and> 0 \<le> y \<and> y \<le> 100 \<and>
                   y = min 100 (max 0 x))) \<and>
           (\<forall>i<length (rows df). \<forall>k. k \<noteq> ''TAXA_ABANDONO'' \<longrightarrow>
              cell (rows df' ! i) k = cell (rows df ! i) k) \<and>
           logs = (INFO, Verificando_consistencia) #
                    (if n_alteradas df df' ''TAXA_ABANDONO'' > 0
                     then [(WARNING, Taxas_invalidas (n_alteradas df df' ''TAXA_ABANDONO''))]
                     else [])"
proof -
  let ?T = "''TAXA_ABANDONO''"
  from verificar_taxas_result[OF assms] obtain df' where
    r: "verificar_taxas df =
             Inr ((INFO, Verificando_consistencia) #
                    (let n = length (filter (\<lambda>r. fora_do_intervalo (cell r ?T)) (rows df))
                     in if n > 0 then [(WARNING, Taxas_invalidas n)] else []), df')"
    and l: "length (rows df') = length (rows df)"
    and c: "\<And>i k. i < length (rows df) \<Longrightarrow> cell (rows df' ! i) k =
               (if k = ?T then clip_0_100 (cell (rows df ! i) k) else cell (rows df ! i) k)"
    by blast
  have "n_alteradas df df' ?T
          = length (filter (\<lambda>i. fora_do_intervalo (cell (rows df ! i) ?T)) [0..<length (rows df)])"
    unfolding n_alteradas_def
    by (rule arg_cong[where f=length], rule filter_cong) (auto simp: c fora_do_intervalo_clip)
  also have "\<dots> = length (filter (\<lambda>r. fora_do_intervalo (cell r ?T)) (rows df))"
    by (rule length_filter_nth)
  finally have n: "length (filter (\<lambda>r. fora_do_intervalo (cell r ?T)) (rows df)) = n_alteradas df df' ?T"
    by simp
  have rng: "\<exists>y. cell (rows df' ! i) ?T = VNum y \<and> 0 \<le> y \<and> y \<le> 100 \<and> y = min 100 (max 0 x)"
    if "i < length (rows df)" "cell (rows df ! i) ?T = VNum x" for i x
    using that c[of i ?T] by (auto simp: min_def max_def)
  show ?thesis
    using r l rng by (auto simp: n Let_def c)
qed

lemma verificar_taxas_exemplo:
  "verificar_taxas municipios_taxas =
     Inr ([(INFO, Verificando_consistencia), (WARNING, Taxas_invalidas 2)],
          \<lparr>columns = [''CO_MUNICIPIO'', ''TAXA_ABANDONO''],
           rows = [[(''CO_MUNICIPIO'', VNum 1), (''TAXA_ABANDONO'', VNum 100)],
                   [(''CO_MUNICIPIO'', VNum 2), (''TAXA_ABANDONO'', VNum 0)],
                   [(''CO_MUNICIPIO'', VNum 3), (''TAXA_ABANDONO'', VNum 50)]]\<rparr>)"
  by (simp add: verificar_taxas_def municipios_taxas_def cell_def is_text_def set_col_def Let_def)

theorem taxas_limitadas_witness:
  "wf_df municipios_taxas \<and> ''TAXA_ABANDONO'' \<in> set (columns municipios_taxas) \<and>
   list_all (\<lambda>r. \<not> is_text (cell r ''TAXA_ABANDONO'')) (rows municipios_taxas) \<and>
   (\<exists>logs df'. verificar_taxas municipios_taxas = Inr (logs, df') \<and>
      cell (rows df' ! 0) ''TAXA_ABANDONO'' = VNum 100 \<and>
      cell (rows df' ! 1) ''TAXA_ABANDONO'' = VNum 0 \<and>
      cell (rows df' ! 2) ''TAXA_ABANDONO'' = VNum 50 \<and>
      cell (rows df' ! 0) ''CO_MUNICIPIO'' = VNum 1)"
proof -
  let ?T = "''TAXA_ABANDONO''"
  have h: "wf_df municipios_taxas" "?T \<in> set (columns municipios_taxas)"
    "\<forall>r \<in> set (rows municipios_taxas). \<not> is_text (cell r ?T)"
    by (simp_all add: municipios_taxas_def wf_df_def cell_def is_text_def)
  have v: "cell (rows municipios_taxas ! 0) ?T = VNum 120"
    "cell (rows municipios_taxas ! 1) ?T = VNum (- 5)"
    "cell (rows municipios_taxas ! 2) ?T = VNum 50"
    "cell (rows municipios_taxas ! 0) ''CO_MUNICIPIO'' = VNum 1"
    "length (rows municipios_taxas) = 3"
    by (simp_all add: municipios_taxas_def cell_def)
  from taxas_limitadas [OF h]
  obtain logs df' where d: "verificar_taxas municipios_taxas = Inr (logs, df')"
    and a: "\<forall>i<length (rows municipios_taxas). \<forall>x. cell (rows municipios_taxas ! i) ?T = VNum x \<longrightarrow>
              (\<exists>y. cell (rows df' ! i) ?T = VNum y \<and> 0 \<le> y \<and> y \<le> 100 \<and> y = min 100 (max 0 x))"
    and b: "\<forall>i<length (rows municipios_taxas). \<forall>k. k \<noteq> ?T \<longrightarrow>
              cell (rows df' ! i) k = cell (rows municipios_taxas ! i) k"
    by blast
  from a[rule_format, of 0 120] a[rule_format, of 1 "- 5"] a[rule_format, of 2 50]
    b[rule_format, of 0 "''CO_MUNICIPIO''"] v
  have "cell (rows df' ! 0) ?T = VNum 100" "cell (rows df' ! 1) ?T = VNum 0"
    "cell (rows df' ! 2) ?T = VNum 50" "cell (rows df' ! 0) ''CO_MUNICIPIO'' = VNum 1"
    by simp_all
  with h d show ?thesis by (auto simp: list_all_iff)
qed

subsection \<open>The value normaliser\<close>

lemma map2_map_same: "map2 h xs (map g xs) = map (\<lambda>x. h x (g x)) xs"
  by (induction xs) auto

lemma set_col_existing:
  assumes "c \<in> set (columns d)"
  shows "set_col d c (map (\<lambda>r. f (cell r c)) (rows d)) = d\<lparr>rows := map (mapear_linha c f) (rows d)\<rparr>"
  using assms by (simp add: set_col_def map2_map_same mapear_linha_def)

lemma cell_mapear_linha:
  "cell (mapear_linha c f r) k =
     (if k = c \<and> c \<in> fst ` set r then f (cell r c) else cell r k)"
proof -
  have m: "map_of (mapear_linha c f r) k =
             (if k = c then map_option (\<lambda>_. f (cell r c)) (map_of r k) else map_of r k)"
    unfolding mapear_linha_def by (rule map_of_overwrite)
  show ?thesis
  proof (cases "k = c \<and> c \<in> fst ` set r")
    case True
    then obtain y where "map_of r c = Some y"
      by (metis domIff dom_map_of_conv_image_fst not_Some_eq)
    then show ?thesis using True m by (simp add: cell_def)
  next
    case False
    show ?thesis
    proof (cases "k = c")
      case True
      then have "map_of r c = None" using False by (simp add: map_of_eq_None_iff)
      then show ?thesis using True False m by (simp add: cell_def)
    next
      case False
      then show ?thesis using m by (simp add: cell_def)
    qed
  qed
qed

lemma fst_mapear_linha: "map fst (mapear_linha c f r) = map fst r"
  by (induction r) (auto simp: mapear_linha_def)

lemma mapear_linha_commute:
  assumes "c \<noteq> c'"
  shows "mapear_linha c f (mapear_linha c' g r) = mapear_linha c' g (mapear_linha c f r)"
proof -
  have a: "mapear_linha c f (mapear_linha c' g r)
             = map (\<lambda>(k, x). (k, if k = c then f (cell r c) else if k = c' then g (cell r c') else x)) r"
    using assms unfolding mapear_linha_def[of c f] cell_mapear_linha
    by (simp add: mapear_linha_def case_prod_unfold)
  have b: "mapear_linha c' g (mapear_linha c f r)
             = map (\<lambda>(k, x). (k, if k = c' then g (cell r c') else if k = c then f (cell r c) else x)) r"
    using assms unfolding mapear_linha_def[of c' g] cell_mapear_linha
    by (simp add: mapear_linha_def case_prod_unfold)
  show ?thesis unfolding a b using assms by (auto simp: case_prod_unfold)
qed

lemma mapear_linha_idem:
  assumes "\<And>x. f (f x) = f x"
  shows "mapear_linha c f (mapear_linha c f r) = mapear_linha c f r"
proof -
  have "mapear_linha c f (mapear_linha c f r)
          = map (\<lambda>(k, x). (k, if k = c then f (cell (mapear_linha c f r) c) else x)) r"
    unfolding mapear_linha_def[of c f "mapear_linha c f r"]
    by (simp add: mapear_linha_def case_prod_unfold)
  also have "\<dots> = map (\<lambda>(k, x). (k, if k = c then f (cell r c) else x)) r"
  proof (rule map_cong[OF refl])
    fix p assume p: "p \<in> set r"
    show "(case p of (k, x) \<Rightarrow> (k, if k = c then f (cell (mapear_linha c f r) c) else x))
           = (case p of (k, x) \<Rightarrow> (k, if k = c then f (cell r c) else x))"
    proof (cases "fst p = c")
      case True
      then have "c \<in> fst ` set r" using p by force
      then show ?thesis using assms by (simp add: cell_mapear_linha case_prod_unfold)
    next
      case False
      then show ?thesis by (simp add: case_prod_unfold)
    qed
  qed
  finally show ?thesis by (simp add: mapear_linha_def)
qed

lemma normalizar_linha_Nil: "normalizar_linha cols [] r = r"
  by (simp add: normalizar_linha_def)

lemma normalizar_linha_Cons:
  "normalizar_linha cols ((c, m) # vs) r =
     normalizar_linha cols vs (if c \<in> set cols then mapear_linha c (mapear_valor m) r else r)"
  by (simp add: normalizar_linha_def)

lemma normalizar_valores_rows:
  "normalizar_valores vs df = df\<lparr>rows := map (normalizar_linha (columns df) vs) (rows df)\<rparr>"
proof (induction vs arbitrary: df)
  case Nil
  show ?case by (simp add: normalizar_valores_def normalizar_linha_def)
next
  case (Cons a vs)
  obtain c m where a: "a = (c, m)" by (cases a)
  define d where "d = (if c \<in> set (columns df)
             then set_col df c (map (\<lambda>r. mapear_valor m (cell r c)) (rows df)) else df)"
  have d': "d = df\<lparr>rows := map (\<lambda>r. if c \<in> set (columns df)
                                then mapear_linha c (mapear_valor m) r else r) (rows df)\<rparr>"
    by (simp add: d_def set_col_existing)
  have "normalizar_valores (a # vs) df = normalizar_valores vs d"
    by (simp add: normalizar_valores_def a d_def)
  also have "\<dots> = d\<lparr>rows := map (normalizar_linha (columns d) vs) (rows d)\<rparr>"
    by (rule Cons.IH)
  also have "\<dots> = df\<lparr>rows := map (normalizar_linha (columns df) (a # vs)) (rows df)\<rparr>"
    by (simp add: d' a normalizar_linha_Cons comp_def)
  finally show ?case .
qed

lemma fst_normalizar_linha: "map fst (normalizar_linha cols vs r) = map fst r"
proof (induction vs arbitrary: r)
  case Nil
  show ?case by (simp add: normalizar_linha_Nil)
next
  case (Cons a vs)
  obtain c m where a: "a = (c, m)" by (cases a)
  show ?case by (simp add: a normalizar_linha_Cons Cons.IH fst_mapear_linha)
qed

lemma normalizar_linha_commute:
  assumes "c \<notin> fst ` set vs"
  shows "mapear_linha c f (normalizar_linha cols vs r) = normalizar_linha cols vs (mapear_linha c f r)"
  using assms
proof (induction vs arbitrary: r)
  case Nil
  show ?case by (simp add: normalizar_linha_Nil)
next
  case (Cons a vs)
  obtain c' m where a: "a = (c', m)" by (cases a)
  have ne: "c' \<noteq> c" and nin: "c \<notin> fst ` set vs" using Cons.prems a by auto
  show ?case
    using Cons.IH[OF nin] mapear_linha_commute[OF ne, of "mapear_valor m" f r]
    by (simp add: a normalizar_linha_Cons)
qed

lemma mapear_valor_idem:
  assumes "\<forall>(codigo, rotulo) \<in> set m. map_of m rotulo = None"
  shows "mapear_valor m (mapear_valor m v) = mapear_valor m v"
proof (cases "map_of m v")
  case None
  then show ?thesis by (simp add: mapear_valor_def)
next
  case (Some l)
  then have "(v, l) \<in> set m" by (rule map_of_SomeD)
  then have "map_of m l = None" using assms by auto
  then show ?thesis using Some by (simp add: mapear_valor_def)
qed

lemma normalizar_linha_idem:
  assumes "distinct (map fst vs)"
    and "\<forall>(c, m) \<in> set vs. \<forall>(codigo, rotulo) \<in> set m. map_of m rotulo = None"
  shows "normalizar_linha cols vs (normalizar_linha cols vs r) = normalizar_linha cols vs r"
  using assms
proof (induction vs arbitrary: r)
  case Nil
  show ?case by (simp add: normalizar_linha_Nil)
next
  case (Cons a vs)
  obtain c m where a: "a = (c, m)" by (cases a)
  have nin: "c \<notin> fst ` set vs" and d: "distinct (map fst vs)"
    using Cons.prems(1) a by auto
  have idm: "mapear_valor m (mapear_valor m x) = mapear_valor m x" for x
    using Cons.prems(2) a by (intro mapear_valor_idem) auto
  have rest: "\<forall>(c, m) \<in> set vs. \<forall>(codigo, rotulo) \<in> set m. map_of m rotulo = None"
    using Cons.prems(2) by auto
  show ?case
  proof (cases "c \<in> set cols")
    case True
    let ?s = "mapear_linha c (mapear_valor m)"
    have "normalizar_linha cols (a # vs) (normalizar_linha cols (a # vs) r)
            = normalizar_linha cols vs (?s (normalizar_linha cols vs (?s r)))"
      using True by (simp add: a normalizar_linha_Cons)
    also have "\<dots> = normalizar_linha cols vs (normalizar_linha cols vs (?s (?s r)))"
      by (simp add: normalizar_linha_commute[OF nin])
    also have "\<dots> = normalizar_linha cols vs (normalizar_linha cols vs (?s r))"
      by (simp add: mapear_linha_idem[of "mapear_valor m", OF idm])
    also have "\<dots> = normalizar_linha cols vs (?s r)"
      by (rule Cons.IH[OF d rest])
    finally show ?thesis using True by (simp add: a normalizar_linha_Cons)
  next
    case False
    then show ?thesis using Cons.IH[OF d rest] by (simp add: a normalizar_linha_Cons)
  qed
qed

lemma cell_normalizar_linha:
  assumes "distinct (map fst vs)"
  shows "cell (normalizar_linha cols vs r) k =
           (case map_of vs k of
              Some m \<Rightarrow> if k \<in> set cols \<and> k \<in> fst ` set r then mapear_valor m (cell r k) else cell r k
            | None \<Rightarrow> cell r k)"
  using assms
proof (induction vs arbitrary: r)
  case Nil
  show ?case by (simp add: normalizar_linha_Nil)
next
  case (Cons a vs)
  obtain c m where a: "a = (c, m)" by (cases a)
  have nin: "map_of vs c = None" and d: "distinct (map fst vs)"
    using Cons.prems a by (auto simp: map_of_eq_None_iff)
  let ?r = "if c \<in> set cols then mapear_linha c (mapear_valor m) r else r"
  have keys: "fst ` set ?r = fst ` set r"
    using arg_cong[OF fst_mapear_linha[of c "mapear_valor m" r], of set] by simp
  have "cell (normalizar_linha cols (a # vs) r) k = cell (normalizar_linha cols vs ?r) k"
    by (simp add: a normalizar_linha_Cons)
  also have "\<dots> = (case map_of vs k of
              Some m' \<Rightarrow> if k \<in> set cols \<and> k \<in> fst ` set r then mapear_valor m' (cell ?r k) else cell ?r k
            | None \<Rightarrow> cell ?r k)"
    unfolding Cons.IH[OF d] keys ..
  also have "\<dots> = (case map_of (a # vs) k of
              Some m \<Rightarrow> if k \<in> set cols \<and> k \<in> fst ` set r then mapear_valor m (cell r k) else cell r k
            | None \<Rightarrow> cell r k)"
    using nin by (auto simp: a cell_mapear_linha split: option.splits)
  finally show ?case .
qed

text \<open>
  Claim C5. For a mapping with distinct columns whose labels are not codes of their own
  dict, normalising twice gives the table that normalising once gives. On a well-formed
  table a cell of a mapped column becomes its label when its code is in the dict and
  stays as it is when the code is not; the cells of unmapped columns stay as they are.
\<close>

theorem normalizar_valores_idempotente:
  assumes "distinct (map fst vs)"
    and "\<forall>(c, m) \<in> set vs. \<forall>(codigo, rotulo) \<in> set m. map_of m rotulo = None"
  shows "normalizar_valores vs (normalizar_valores vs df) = normalizar_valores vs df \<and>
         (wf_df df \<longrightarrow>
            (\<forall>i<length (rows df). \<forall>c.
               (\<forall>m rotulo. map_of vs c = Some m \<and> c \<in> set (columns df) \<and>
                    map_of m (cell (rows df ! i) c) = Some rotulo \<and> rotulo \<noteq> VNull \<longrightarrow>
                  cell (rows (normalizar_valores vs df) ! i) c = rotulo) \<and>
               (\<forall>m. map_of vs c = Some m \<and> map_of m (cell (rows df ! i) c) = None \<longrightarrow>
                  cell (rows (normalizar_valores vs df) ! i) c = cell (rows df ! i) c) \<and>
               (map_of vs c = None \<longrightarrow>
                  cell (rows (normalizar_valores vs df) ! i) c = cell (rows df ! i) c)))"
proof (intro conjI impI allI)
  let ?G = "normalizar_linha (columns df) vs"
  have cols: "columns (normalizar_valores vs df) = columns df"
    by (subst normalizar_valores_rows) simp
  have rws: "rows (normalizar_valores vs df) = map ?G (rows df)"
    by (subst normalizar_valores_rows) simp
  have "normalizar_valores vs (normalizar_valores vs df)
          = (normalizar_valores vs df)\<lparr>rows := map ?G (map ?G (rows df))\<rparr>"
    by (subst normalizar_valores_rows) (simp add: cols rws)
  also have "map ?G (map ?G (rows df)) = map ?G (rows df)"
    using normalizar_linha_idem[OF assms] by simp
  also have "(normalizar_valores vs df)\<lparr>rows := map ?G (rows df)\<rparr> = normalizar_valores vs df"
    by (subst (2) normalizar_valores_rows, subst normalizar_valores_rows) simp
  finally show "normalizar_valores vs (normalizar_valores vs df) = normalizar_valores vs df" .
next
  fix i c m rotulo
  assume wf: "wf_df df" and i: "i < length (rows df)"
    and h: "map_of vs c = Some m \<and> c \<in> set (columns df) \<and>
            map_of m (cell (rows df ! i) c) = Some rotulo \<and> rotulo \<noteq> VNull"
  have "map fst (rows df ! i) = columns df"
    using wf i by (simp add: wf_df_def list_all_length)
  then have "c \<in> fst ` set (rows df ! i)" using h by (metis set_map)
  then show "cell (rows (normalizar_valores vs df) ! i) c = rotulo"
    using i h by (subst normalizar_valores_rows)
      (simp add: cell_normalizar_linha[OF assms(1)] mapear_valor_def)
next
  fix i c m
  assume i: "i < length (rows df)"
    and h: "map_of vs c = Some m \<and> map_of m (cell (rows df ! i) c) = None"
  show "cell (rows (normalizar_valores vs df) ! i) c = cell (rows df ! i) c"
    using i h by (subst normalizar_valores_rows)
      (simp add: cell_normalizar_linha[OF assms(1)] mapear_valor_def)
next
  fix i c
  assume i: "i < length (rows df)" and h: "map_of vs c = None"
  show "cell (rows (normalizar_valores vs df) ! i) c = cell (rows df ! i) c"
    using i h by (subst normalizar_valores_rows) (simp add: cell_normalizar_linha[OF assms(1)])
qed

lemma normalizar_valores_exemplo:
  "normalizar_valores valores_censo_escola escolas_codigos =
     \<lparr>columns = [''CO_ENTIDADE'', ''TP_DEPENDENCIA'', ''TP_LOCALIZACAO''],
      rows = [[(''CO_ENTIDADE'', VNum 1), (''TP_DEPENDENCIA'', VStr ''Federal''),
               (''TP_LOCALIZACAO'', VStr ''Urbana'')],
              [(''CO_ENTIDADE'', VNum 2), (''TP_DEPENDENCIA'', VNum 9), (''TP_LOCALIZACAO'', VNull)]]\<rparr>"
  by (simp add: normalizar_valores_def valores_censo_escola_def mapeamentos_censo_escola_def
      escolas_codigos_def set_col_def cell_def mapear_valor_def)

theorem normalizar_valores_idempotente_witness:
  "distinct (map fst valores_censo_escola) \<and>
   normalizar_valores valores_censo_escola (normalizar_valores valores_censo_escola escolas_codigos)
     = normalizar_valores valores_censo_escola escolas_codigos \<and>
   cell (rows (normalizar_valores valores_censo_escola escolas_codigos) ! 0) ''TP_DEPENDENCIA''
     = VStr ''Federal'' \<and>
   cell (rows (normalizar_valores valores_censo_escola escolas_codigos) ! 1) ''TP_DEPENDENCIA''
     = VNum 9 \<and>
   cell (rows (normalizar_valores valores_censo_escola escolas_codigos) ! 1) ''CO_ENTIDADE''
     = VNum 2"
proof -
  let ?dep = "[(VNum 1, VStr ''Federal''), (VNum 2, VStr ''Estadual''),
               (VNum 3, VStr ''Municipal''), (VNum 4, VStr ''Privada'')]"
  have h: "distinct (map fst valores_censo_escola)"
    "\<forall>(c, m) \<in> set valores_censo_escola. \<forall>(codigo, rotulo) \<in> set m. map_of m rotulo = None"
    by (simp_all add: valores_censo_escola_def mapeamentos_censo_escola_def)
  have w: "wf_df escolas_codigos" "length (rows escolas_codigos) = 2"
    "''TP_DEPENDENCIA'' \<in> set (columns escolas_codigos)"
    by (simp_all add: escolas_codigos_def wf_df_def)
  have v: "map_of valores_censo_escola ''TP_DEPENDENCIA'' = Some ?dep"
    "map_of valores_censo_escola ''CO_ENTIDADE'' = None"
    "cell (rows escolas_codigos ! 0) ''TP_DEPENDENCIA'' = VNum 1"
    "cell (rows escolas_codigos ! 1) ''TP_DEPENDENCIA'' = VNum 9"
    "cell (rows escolas_codigos ! 1) ''CO_ENTIDADE'' = VNum 2"
    by (simp_all add: valores_censo_escola_def mapeamentos_censo_escola_def escolas_codigos_def cell_def)
  note t = normalizar_valores_idempotente [OF h, of escolas_codigos]
  from t have idem: "normalizar_valores valores_censo_escola
       (normalizar_valores valores_censo_escola escolas_codigos)
     = normalizar_valores valores_censo_escola escolas_codigos" by blast
  note c = t [THEN conjunct2, THEN mp, OF w(1), rule_format]
  have c0: "cell (rows (normalizar_valores valores_censo_escola escolas_codigos) ! 0) ''TP_DEPENDENCIA''
     = VStr ''Federal''"
    using c[of 0 "''TP_DEPENDENCIA''", THEN conjunct1, rule_format, of ?dep "VStr ''Federal''"] v w
    by simp
  have c1: "cell (rows (normalizar_valores valores_censo_escola escolas_codigos) ! 1) ''TP_DEPENDENCIA''
     = VNum 9"
    using c[of 1 "''TP_DEPENDENCIA''", THEN conjunct2, THEN conjunct1, rule_format, of ?dep] v w
    by simp
  have c2: "cell (rows (normalizar_valores valores_censo_escola escolas_codigos) ! 1) ''CO_ENTIDADE''
     = VNum 2"
    using c[of 1 "''CO_ENTIDADE''", THEN conjunct2, THEN conjunct2] v w
    by simp
  show ?thesis using h(1) idem c0 c1 c2 by blast
qed

subsection \<open>The socioeconomic loader\<close>








subsection \<open>The missing-value pass\<close>

lemma tratar_coluna_shape:
  assumes "wf_df d" "c \<in> set (columns d)"
  shows "wf_df (tratar_coluna c d)" "columns (tratar_coluna c d) = columns d"
    "length (rows (tratar_coluna c d)) = length (rows d)"
proof -
  let ?vs = "map (\<lambda>r. fillna (media (map (\<lambda>r'. cell r' c) (rows d))) (cell r c)) (rows d)"
  have l: "length ?vs = length (rows d)" by simp
  show "wf_df (tratar_coluna c d)"
    using wf_set_col[OF assms(1) l, of c] assms(1) by (simp add: tratar_coluna_def)
  show "columns (tratar_coluna c d) = columns d"
    using assms(2) by (simp add: tratar_coluna_def set_col_def)
  show "length (rows (tratar_coluna c d)) = length (rows d)"
    using length_rows_set_col[OF l, of c] by (simp add: tratar_coluna_def)
qed

lemma tratar_coluna_cell:
  assumes wf: "wf_df d" and c: "c \<in> set (columns d)" and i: "i < length (rows d)"
  shows "cell (rows (tratar_coluna c d) ! i) k =
           (if k = c then fillna (media (map (\<lambda>r. cell r c) (rows d))) (cell (rows d ! i) c)
            else cell (rows d ! i) k)"
proof (cases "contar_ausentes d c > 0")
  case True
  let ?vs = "map (\<lambda>r. fillna (media (map (\<lambda>r'. cell r' c) (rows d))) (cell r c)) (rows d)"
  have l: "length ?vs = length (rows d)" by simp
  show ?thesis
    using True cell_set_col[OF wf l i, of c k] i by (simp add: tratar_coluna_def)
next
  case False
  then have "\<forall>r \<in> set (rows d). cell r c \<noteq> VNull"
    by (simp add: contar_ausentes_def filter_empty_conv)
  then have "cell (rows d ! i) c \<noteq> VNull" using i by simp
  then show ?thesis using False by (simp add: tratar_coluna_def fillna_def)
qed

lemma fold_tratar_coluna:
  assumes "wf_df d" "set cs \<subseteq> set (columns d)" "distinct cs"
  shows "wf_df (fold tratar_coluna cs d) \<and> columns (fold tratar_coluna cs d) = columns d \<and>
         length (rows (fold tratar_coluna cs d)) = length (rows d) \<and>
         (\<forall>i<length (rows d). \<forall>k. cell (rows (fold tratar_coluna cs d) ! i) k =
            (if k \<in> set cs then fillna (media (map (\<lambda>r. cell r k) (rows d))) (cell (rows d ! i) k)
             else cell (rows d ! i) k))"
  using assms
proof (induction cs arbitrary: d)
  case Nil
  then show ?case by simp
next
  case (Cons c cs)
  let ?d1 = "tratar_coluna c d"
  have c: "c \<in> set (columns d)" and nin: "c \<notin> set cs" and dis: "distinct cs"
    using Cons.prems by auto
  have wf1: "wf_df ?d1" and cols1: "columns ?d1 = columns d"
    and len1: "length (rows ?d1) = length (rows d)"
    using tratar_coluna_shape[OF Cons.prems(1) c] by simp_all
  have sub: "set cs \<subseteq> set (columns ?d1)" using Cons.prems(2) cols1 by simp
  note ih = Cons.IH[OF wf1 sub dis]
  have same: "map (\<lambda>r. cell r k) (rows ?d1) = map (\<lambda>r. cell r k) (rows d)" if "k \<noteq> c" for k
  proof (rule nth_equalityI)
    show "length (map (\<lambda>r. cell r k) (rows ?d1)) = length (map (\<lambda>r. cell r k) (rows d))"
      by (simp add: len1)
  next
    fix i assume "i < length (map (\<lambda>r. cell r k) (rows ?d1))"
    then have i: "i < length (rows d)" by (simp add: len1)
    then show "map (\<lambda>r. cell r k) (rows ?d1) ! i = map (\<lambda>r. cell r k) (rows d) ! i"
      using that tratar_coluna_cell[OF Cons.prems(1) c i, of k] by (simp add: len1)
  qed
  have cells: "cell (rows (fold tratar_coluna (c # cs) d) ! i) k =
            (if k \<in> set (c # cs) then fillna (media (map (\<lambda>r. cell r k) (rows d))) (cell (rows d ! i) k)
             else cell (rows d ! i) k)" if i: "i < length (rows d)" for i k
  proof -
    have "cell (rows (fold tratar_coluna (c # cs) d) ! i) k = cell (rows (fold tratar_coluna cs ?d1) ! i) k"
      by simp
    also have "\<dots> = (if k \<in> set cs then fillna (media (map (\<lambda>r. cell r k) (rows ?d1))) (cell (rows ?d1 ! i) k)
             else cell (rows ?d1 ! i) k)"
      using ih i len1 by simp
    also have "\<dots> = (if k \<in> set (c # cs) then fillna (media (map (\<lambda>r. cell r k) (rows d))) (cell (rows d ! i) k)
             else cell (rows d ! i) k)"
    proof (cases "k = c")
      case True
      then show ?thesis using nin tratar_coluna_cell[OF Cons.prems(1) c i, of c] by simp
    next
      case False
      then show ?thesis using same[OF False] tratar_coluna_cell[OF Cons.prems(1) c i, of k] by simp
    qed
    finally show ?thesis .
  qed
  show ?case
    using ih cols1 len1 cells by simp
qed

lemma verificar_valores_ausentes_result:
  assumes wf: "wf_df df" and dis: "distinct (columns df)"
  shows "\<exists>logs df'. verificar_valores_ausentes df
                      = (logs, filter (\<lambda>(c, n, p). n > 0) (missing_df df), df') \<and>
           columns df' = columns df \<and> length (rows df') = length (rows df) \<and>
           (\<forall>i<length (rows df). \<forall>k. cell (rows df' ! i) k =
              (if k \<in> set (columns df) \<and> dtype_numerico df k
               then fillna (media (map (\<lambda>r. cell r k) (rows df))) (cell (rows df ! i) k)
               else cell (rows df ! i) k))"
proof (cases "sum_list (map (\<lambda>(c, n, p). n) (missing_df df)) > 0")
  case True
  let ?cs = "filter (dtype_numerico df) (columns df)"
  have "set ?cs \<subseteq> set (columns df)" "distinct ?cs" using dis by auto
  from fold_tratar_coluna[OF wf this]
  have "columns (tratar_ausentes df) = columns df"
    "length (rows (tratar_ausentes df)) = length (rows df)"
    "\<forall>i<length (rows df). \<forall>k. cell (rows (tratar_ausentes df) ! i) k =
            (if k \<in> set ?cs then fillna (media (map (\<lambda>r. cell r k) (rows df))) (cell (rows df ! i) k)
             else cell (rows df ! i) k)"
    by (simp_all add: tratar_ausentes_def)
  then show ?thesis
    using True by (simp add: verificar_valores_ausentes_def Let_def)
next
  case False
  then have "\<forall>c \<in> set (columns df). contar_ausentes df c = 0"
    by (simp add: missing_df_def comp_def)
  then have "cell (rows df ! i) k \<noteq> VNull" if "i < length (rows df)" "k \<in> set (columns df)" for i k
    using that by (auto simp: contar_ausentes_def filter_empty_conv)
  moreover have "verificar_valores_ausentes df
          = ([(INFO, Verificando_valores_ausentes)], filter (\<lambda>(c, n, p). n > 0) (missing_df df), df)"
    using False by (simp add: verificar_valores_ausentes_def Let_def)
  ultimately show ?thesis
    by (simp add: fillna_def)
qed

text \<open>
  Against claim C9 as stated: the checking run itself changes the table. The missing
  IDEB of the second municipality comes back as the column mean 5, with no separate call;
  the missing name stays missing.
\<close>

theorem verificacao_altera_dados:
  "verificar_valores_ausentes municipios_ideb =
     ([(INFO, Verificando_valores_ausentes), (INFO, Tratando_valores_ausentes),
       (INFO, Valores_ausentes_tratados)],
      [(''NO_MUNICIPIO'', 1, Some (3333 / 100)), (''IDEB'', 1, Some (3333 / 100))],
      \<lparr>columns = [''NO_MUNICIPIO'', ''IDEB''],
       rows = [[(''NO_MUNICIPIO'', VStr ''A''), (''IDEB'', VNum 4)],
               [(''NO_MUNICIPIO'', VNull), (''IDEB'', VNum 5)],
               [(''NO_MUNICIPIO'', VStr ''C''), (''IDEB'', VNum 6)]]\<rparr>) \<and>
   snd (snd (verificar_valores_ausentes municipios_ideb)) \<noteq> municipios_ideb"
proof -
  have f: "\<lfloor>(10000 :: rat) / 3\<rfloor> = 3333"
    by (rule floor_unique) simp_all
  have a: "arredondar_2 (1 / 3 * 100) = 3333 / 100"
    by (simp add: arredondar_2_def Let_def f)
  have m: "missing_df municipios_ideb
             = [(''NO_MUNICIPIO'', 1, Some (3333 / 100)), (''IDEB'', 1, Some (3333 / 100))]"
    using a by (simp add: missing_df_def contar_ausentes_def municipios_ideb_def cell_def)
  have n: "filter (dtype_numerico municipios_ideb) (columns municipios_ideb) = [''IDEB'']"
    by (simp add: dtype_numerico_def municipios_ideb_def cell_def is_text_def)
  have t: "tratar_ausentes municipios_ideb =
      \<lparr>columns = [''NO_MUNICIPIO'', ''IDEB''],
       rows = [[(''NO_MUNICIPIO'', VStr ''A''), (''IDEB'', VNum 4)],
               [(''NO_MUNICIPIO'', VNull), (''IDEB'', VNum 5)],
               [(''NO_MUNICIPIO'', VStr ''C''), (''IDEB'', VNum 6)]]\<rparr>"
    unfolding tratar_ausentes_def n
    by (simp add: tratar_coluna_def contar_ausentes_def municipios_ideb_def cell_def set_col_def
        fillna_def media_def)
  have r: "verificar_valores_ausentes municipios_ideb =
     ([(INFO, Verificando_valores_ausentes), (INFO, Tratando_valores_ausentes),
       (INFO, Valores_ausentes_tratados)],
      [(''NO_MUNICIPIO'', 1, Some (3333 / 100)), (''IDEB'', 1, Some (3333 / 100))],
      tratar_ausentes municipios_ideb)"
    unfolding verificar_valores_ausentes_def m by (simp add: Let_def)
  have "tratar_ausentes municipios_ideb \<noteq> municipios_ideb"
    unfolding t by (simp add: municipios_ideb_def)
  then show ?thesis
    unfolding r using t by simp
qed

text \<open>
  Claim C9, amended. The missing-value pass reports, for every column, the count (and
  percentage) of missing values, printing the columns that have some, and in the same run
  fills the missing values of every numeric column with the mean of that column; the cells
  of the other columns are left as they are (no sentinel label is written). Nothing has to
  be invoked for the imputation to happen.
\<close>

theorem ausentes_tratados_na_verificacao:
  assumes "wf_df df" and "distinct (columns df)"
  shows "\<exists>logs df'. verificar_valores_ausentes df
                      = (logs, filter (\<lambda>(c, n, p). n > 0) (missing_df df), df') \<and>
           map (\<lambda>(c, n, p). (c, n)) (missing_df df)
             = map (\<lambda>c. (c, contar_ausentes df c)) (columns df) \<and>
           columns df' = columns df \<and> length (rows df') = length (rows df) \<and>
           (\<forall>i<length (rows df). \<forall>k \<in> set (columns df).
              (dtype_numerico df k \<longrightarrow>
                 cell (rows df' ! i) k
                   = fillna (media (map (\<lambda>r. cell r k) (rows df))) (cell (rows df ! i) k)) \<and>
              (\<not> dtype_numerico df k \<longrightarrow> cell (rows df' ! i) k = cell (rows df ! i) k))"
proof -
  from verificar_valores_ausentes_result[OF assms] obtain logs df' where
    r: "verificar_valores_ausentes df = (logs, filter (\<lambda>(c, n, p). n > 0) (missing_df df), df')"
      "columns df' = columns df" "length (rows df') = length (rows df)"
    and c: "\<And>i k. i < length (rows df) \<Longrightarrow> cell (rows df' ! i) k =
              (if k \<in> set (columns df) \<and> dtype_numerico df k
               then fillna (media (map (\<lambda>r. cell r k) (rows df))) (cell (rows df ! i) k)
               else cell (rows df ! i) k)"
    by blast
  have m: "map (\<lambda>(c, n, p). (c, n)) (missing_df df)
             = map (\<lambda>c. (c, contar_ausentes df c)) (columns df)"
    by (simp add: missing_df_def comp_def)
  show ?thesis
    using r m by (auto simp: c)
qed

theorem ausentes_tratados_na_verificacao_witness:
  "wf_df municipios_ideb \<and> distinct (columns municipios_ideb) \<and>
   (\<exists>logs df'. verificar_valores_ausentes municipios_ideb
                  = (logs, filter (\<lambda>(c, n, p). n > 0) (missing_df municipios_ideb), df') \<and>
      cell (rows df' ! 1) ''IDEB'' = VNum 5 \<and>
      cell (rows df' ! 1) ''NO_MUNICIPIO'' = VNull)"
proof -
  have h: "wf_df municipios_ideb" "distinct (columns municipios_ideb)"
    by (simp_all add: municipios_ideb_def wf_df_def)
  have v: "dtype_numerico municipios_ideb ''IDEB''" "\<not> dtype_numerico municipios_ideb ''NO_MUNICIPIO''"
    "fillna (media (map (\<lambda>r. cell r ''IDEB'') (rows municipios_ideb)))
       (cell (rows municipios_ideb ! 1) ''IDEB'') = VNum 5"
    "cell (rows municipios_ideb ! 1) ''NO_MUNICIPIO'' = VNull"
    "(1::nat) < length (rows municipios_ideb)"
    "''IDEB'' \<in> set (columns municipios_ideb)" "''NO_MUNICIPIO'' \<in> set (columns municipios_ideb)"
    by (simp_all add: dtype_numerico_def municipios_ideb_def cell_def is_text_def fillna_def media_def)
  from ausentes_tratados_na_verificacao [OF h]
  obtain logs df' where
    r: "verificar_valores_ausentes municipios_ideb
          = (logs, filter (\<lambda>(c, n, p). n > 0) (missing_df municipios_ideb), df')"
    and c: "\<forall>i<length (rows municipios_ideb). \<forall>k \<in> set (columns municipios_ideb).
              (dtype_numerico municipios_ideb k \<longrightarrow>
                 cell (rows df' ! i) k
                   = fillna (media (map (\<lambda>r. cell r k) (rows municipios_ideb)))
                       (cell (rows municipios_ideb ! i) k)) \<and>
              (\<not> dtype_numerico municipios_ideb k \<longrightarrow>
                 cell (rows df' ! i) k = cell (rows municipios_ideb ! i) k)"
    by blast
  have "cell (rows df' ! 1) ''IDEB'' = VNum 5"
    using c[rule_format, OF v(5) v(6), THEN conjunct1] v(1,3) by simp
  moreover have "cell (rows df' ! 1) ''NO_MUNICIPIO'' = VNull"
    using c[rule_format, OF v(5) v(7), THEN conjunct2] v(2,4) by simp
  ultimately show ?thesis using h r by blast
qed

subsection \<open>The dropout rate of the aggregates\<close>

lemma chaves_tres_escolas:
  "chaves_grupos tres_escolas ''CO_ENTIDADE'' = [VStr ''A'', VStr ''B'', VStr ''C'']"
  by (simp add: chaves_grupos_def key_values_def tres_escolas_def aluno_def cell_def ordenar_def
      numeral_eq_Suc)

lemma grupos_tres_escolas:
  "filter (\<lambda>r. cell r ''CO_ENTIDADE'' = VStr ''A'') (rows tres_escolas)
     = replicate 2 (aluno ''A'' 1) @ replicate 8 (aluno ''A'' 0)"
  "filter (\<lambda>r. cell r ''CO_ENTIDADE'' = VStr ''B'') (rows tres_escolas)
     = replicate 5 (aluno ''B'' 0)"
  "filter (\<lambda>r. cell r ''CO_ENTIDADE'' = VStr ''C'') (rows tres_escolas)
     = replicate 4 (aluno ''C'' 1) @ replicate 4 (aluno ''C'' 0)"
  by (simp_all add: tres_escolas_def aluno_def cell_def)

lemma cell_aluno:
  "cell (aluno e a) ''CO_MUNICIPIO'' = VNum 3550308"
  "cell (aluno e a) ''CO_UF'' = VNum 35"
  "cell (aluno e a) ''TP_DEPENDENCIA'' = VNum 2"
  "cell (aluno e a) ''TP_LOCALIZACAO'' = VNum 1"
  "cell (aluno e a) ''DEPENDENCIA'' = VStr ''Estadual''"
  "cell (aluno e a) ''LOCALIZACAO'' = VStr ''Urbana''"
  "cell (aluno e a) ''ABANDONO'' = VNum a"
  "cell (aluno e a) ''NU_ANO_CENSO'' = VNum 2022"
  by (simp_all add: aluno_def cell_def)

lemma agregar_replicate:
  assumes "v \<noteq> VNull" "k > 0"
  shows "agregar First (replicate k v) = Inr v"
    and "agregar Count (replicate k v) = Inr (VNum (of_nat k))"
proof -
  obtain j where "k = Suc j" using assms(2) by (cases k) auto
  then show "agregar First (replicate k v) = Inr v" using assms(1) by simp
  show "agregar Count (replicate k v) = Inr (VNum (of_nat k))" using assms(1) by simp
qed

lemma agregar_mean_flags:
  assumes "m + n > 0"
  shows "agregar Mean (replicate m (VNum 1) @ replicate n (VNum 0)) = Inr (VNum (of_nat m / of_nat (m + n)))"
proof -
  have n: "numeros (replicate k (VNum x)) = replicate k x" for k x
    by (induction k) auto
  have a: "numeros (xs @ ys) = numeros xs @ numeros ys" for xs ys
    by (induction xs rule: numeros.induct) auto
  have s: "sum_list (replicate k x) = of_nat k * x" for k and x :: rat
    by (induction k) (auto simp: algebra_simps)
  have t: "\<not> list_ex is_text (replicate m (VNum 1) @ replicate n (VNum 0))"
    by (auto simp: list_ex_iff is_text_def)
  show ?thesis
    using t assms by (simp add: media_def a n s Let_def)
qed

lemma coluna_grupo:
  "map (\<lambda>r. cell r ''ABANDONO'') (replicate m (aluno e 1) @ replicate n (aluno e 0))
     = replicate m (VNum 1) @ replicate n (VNum 0)"
  "map (\<lambda>r. cell r ''CO_MUNICIPIO'') (replicate m (aluno e 1) @ replicate n (aluno e 0))
     = replicate (m + n) (VNum 3550308)"
  "map (\<lambda>r. cell r ''CO_UF'') (replicate m (aluno e 1) @ replicate n (aluno e 0))
     = replicate (m + n) (VNum 35)"
  "map (\<lambda>r. cell r ''TP_DEPENDENCIA'') (replicate m (aluno e 1) @ replicate n (aluno e 0))
     = replicate (m + n) (VNum 2)"
  "map (\<lambda>r. cell r ''TP_LOCALIZACAO'') (replicate m (aluno e 1) @ replicate n (aluno e 0))
     = replicate (m + n) (VNum 1)"
  "map (\<lambda>r. cell r ''DEPENDENCIA'') (replicate m (aluno e 1) @ replicate n (aluno e 0))
     = replicate (m + n) (VStr ''Estadual'')"
  "map (\<lambda>r. cell r ''LOCALIZACAO'') (replicate m (aluno e 1) @ replicate n (aluno e 0))
     = replicate (m + n) (VStr ''Urbana'')"
  "map (\<lambda>r. cell r ''NU_ANO_CENSO'') (replicate m (aluno e 1) @ replicate n (aluno e 0))
     = replicate (m + n) (VNum 2022)"
  by (simp_all add: cell_aluno replicate_add)

lemma linha_agregado_escola:
  assumes "m + n > 0"
  shows "mapM (\<lambda>(c, op). case agregar op (map (\<lambda>r. cell r c)
                 (replicate m (aluno e 1) @ replicate n (aluno e 0))) of
                   Inl x \<Rightarrow> Inl x | Inr v \<Rightarrow> Inr (c, v))
           [(''CO_MUNICIPIO'', First), (''CO_UF'', First), (''TP_DEPENDENCIA'', First),
            (''TP_LOCALIZACAO'', First), (''ABANDONO'', Mean), (''NU_ANO_CENSO'', Count)]
         = Inr [(''CO_MUNICIPIO'', VNum 3550308), (''CO_UF'', VNum 35), (''TP_DEPENDENCIA'', VNum 2),
                (''TP_LOCALIZACAO'', VNum 1), (''ABANDONO'', VNum (of_nat m / of_nat (m + n))),
                (''NU_ANO_CENSO'', VNum (of_nat (m + n)))]"
  unfolding mapM.simps prod.case coluna_grupo
  using assms by (simp add: agregar_replicate agregar_mean_flags del: agregar.simps)

lemma linha_df_escola:
  assumes "m + n > 0"
  shows "mapM (\<lambda>(c, op). case agregar op (map (\<lambda>r. cell r c)
                 (replicate m (aluno e 1) @ replicate n (aluno e 0))) of
                   Inl x \<Rightarrow> Inl x | Inr v \<Rightarrow> Inr (c, v))
           [(''CO_MUNICIPIO'', First), (''CO_UF'', First), (''DEPENDENCIA'', First),
            (''LOCALIZACAO'', First), (''ABANDONO'', Mean), (''NU_ANO_CENSO'', Count)]
         = Inr [(''CO_MUNICIPIO'', VNum 3550308), (''CO_UF'', VNum 35),
                (''DEPENDENCIA'', VStr ''Estadual''), (''LOCALIZACAO'', VStr ''Urbana''),
                (''ABANDONO'', VNum (of_nat m / of_nat (m + n))),
                (''NU_ANO_CENSO'', VNum (of_nat (m + n)))]"
  unfolding mapM.simps prod.case coluna_grupo
  using assms by (simp add: agregar_replicate agregar_mean_flags del: agregar.simps)

lemma mapM_Cons_Inr:
  "f x = Inr y \<Longrightarrow> mapM f xs = Inr ys \<Longrightarrow> mapM f (x # xs) = Inr (y # ys)"
  by simp

lemma groupby_tres_escolas:
  assumes l: "\<And>m n e. m + n > 0 \<Longrightarrow>
              mapM (\<lambda>(c, op). case agregar op (map (\<lambda>r. cell r c)
                      (replicate m (aluno e 1) @ replicate n (aluno e 0))) of
                        Inl x \<Rightarrow> Inl x | Inr v \<Rightarrow> Inr (c, v)) spec = Inr (linha m n)"
    and c: "\<forall>(c, op) \<in> set spec. c \<in> set (columns tres_escolas)"
  shows "groupby_agg tres_escolas ''CO_ENTIDADE'' spec =
           Inr \<lparr>columns = ''CO_ENTIDADE'' # map fst spec,
                rows = [(''CO_ENTIDADE'', VStr ''A'') # linha 2 8,
                        (''CO_ENTIDADE'', VStr ''B'') # linha 0 5,
                        (''CO_ENTIDADE'', VStr ''C'') # linha 4 4]\<rparr>"
proof -
  let ?G = "\<lambda>k. (let grupo = filter (\<lambda>r. cell r ''CO_ENTIDADE'' = k) (rows tres_escolas)
                        in case mapM (\<lambda>(c, op).
                                  case agregar op (map (\<lambda>r. cell r c) grupo) of
                                    Inl e \<Rightarrow> Inl e | Inr v \<Rightarrow> Inr (c, v)) spec of
                             Inl e \<Rightarrow> Inl e
                           | Inr cells \<Rightarrow> Inr ((''CO_ENTIDADE'', k) # cells))"
  have b: "replicate 5 (aluno ''B'' 0) = replicate 0 (aluno ''B'' 1) @ replicate 5 (aluno ''B'' 0)"
    by simp
  have gA: "?G (VStr ''A'') = Inr ((''CO_ENTIDADE'', VStr ''A'') # linha 2 8)"
    unfolding Let_def grupos_tres_escolas by (subst l) simp_all
  have gB: "?G (VStr ''B'') = Inr ((''CO_ENTIDADE'', VStr ''B'') # linha 0 5)"
    unfolding Let_def grupos_tres_escolas by (subst b, subst l) simp_all
  have gC: "?G (VStr ''C'') = Inr ((''CO_ENTIDADE'', VStr ''C'') # linha 4 4)"
    unfolding Let_def grupos_tres_escolas by (subst l) simp_all
  have r: "mapM ?G [VStr ''A'', VStr ''B'', VStr ''C'']
             = Inr [(''CO_ENTIDADE'', VStr ''A'') # linha 2 8,
                    (''CO_ENTIDADE'', VStr ''B'') # linha 0 5,
                    (''CO_ENTIDADE'', VStr ''C'') # linha 4 4]"
    by (intro mapM_Cons_Inr gA gB gC) simp
  have f: "find (\<lambda>(c, op). c \<notin> set (columns tres_escolas)) spec = None"
    using c by (auto simp: find_None_iff)
  have k: "''CO_ENTIDADE'' \<in> set (columns tres_escolas)"
    by (simp add: tres_escolas_def)
  show ?thesis
    unfolding groupby_agg_def chaves_tres_escolas r f using k by simp
qed

text \<open>
  Claim C3 on the script's aggregation (\<open>processar_censo_escolar\<close>): in the scenario
  the rate column holds the mean of the flag, 1/5, 0 and 1/2, not multiplied by 100.
\<close>

theorem agregado_escola_taxa_sem_percentual:
  "agregado_escola tres_escolas =
     Inr \<lparr>columns = [''CO_ENTIDADE'', ''CO_MUNICIPIO'', ''CO_UF'', ''TP_DEPENDENCIA'',
                     ''TP_LOCALIZACAO'', ''TAXA_ABANDONO'', ''TOTAL_ALUNOS''],
          rows = [[(''CO_ENTIDADE'', VStr ''A''), (''CO_MUNICIPIO'', VNum 3550308), (''CO_UF'', VNum 35),
                   (''TP_DEPENDENCIA'', VNum 2), (''TP_LOCALIZACAO'', VNum 1),
                   (''TAXA_ABANDONO'', VNum (1 / 5)), (''TOTAL_ALUNOS'', VNum 10)],
                  [(''CO_ENTIDADE'', VStr ''B''), (''CO_MUNICIPIO'', VNum 3550308), (''CO_UF'', VNum 35),
                   (''TP_DEPENDENCIA'', VNum 2), (''TP_LOCALIZACAO'', VNum 1),
                   (''TAXA_ABANDONO'', VNum 0), (''TOTAL_ALUNOS'', VNum 5)],
                  [(''CO_ENTIDADE'', VStr ''C''), (''CO_MUNICIPIO'', VNum 3550308), (''CO_UF'', VNum 35),
                   (''TP_DEPENDENCIA'', VNum 2), (''TP_LOCALIZACAO'', VNum 1),
                   (''TAXA_ABANDONO'', VNum (1 / 2)), (''TOTAL_ALUNOS'', VNum 8)]]\<rparr>"
proof -
  have c: "\<forall>(c, op) \<in> set [(''CO_MUNICIPIO'', First), (''CO_UF'', First), (''TP_DEPENDENCIA'', First),
              (''TP_LOCALIZACAO'', First), (''ABANDONO'', Mean), (''NU_ANO_CENSO'', Count)].
            c \<in> set (columns tres_escolas)"
    by (simp add: tres_escolas_def)
  note g = groupby_tres_escolas
    [where linha = "\<lambda>m n. [(''CO_MUNICIPIO'', VNum 3550308), (''CO_UF'', VNum 35),
         (''TP_DEPENDENCIA'', VNum 2), (''TP_LOCALIZACAO'', VNum 1),
         (''ABANDONO'', VNum (of_nat m / of_nat (m + n))), (''NU_ANO_CENSO'', VNum (of_nat (m + n)))]",
     OF linha_agregado_escola c, simplified]
  show ?thesis
    by (simp add: agregado_escola_def g rename_cols_def renomear_agregado_def)
qed

text \<open>
  The notebook's aggregation (section 5.1) on the same students: the rates are 20, 0
  and 50.
\<close>

lemma df_escola_taxa_percentual:
  "df_escola tres_escolas =
     Inr \<lparr>columns = [''CO_ENTIDADE'', ''CO_MUNICIPIO'', ''CO_UF'', ''DEPENDENCIA'',
                     ''LOCALIZACAO'', ''TAXA_ABANDONO'', ''TOTAL_ALUNOS''],
          rows = [[(''CO_ENTIDADE'', VStr ''A''), (''CO_MUNICIPIO'', VNum 3550308), (''CO_UF'', VNum 35),
                   (''DEPENDENCIA'', VStr ''Estadual''), (''LOCALIZACAO'', VStr ''Urbana''),
                   (''TAXA_ABANDONO'', VNum 20), (''TOTAL_ALUNOS'', VNum 10)],
                  [(''CO_ENTIDADE'', VStr ''B''), (''CO_MUNICIPIO'', VNum 3550308), (''CO_UF'', VNum 35),
                   (''DEPENDENCIA'', VStr ''Estadual''), (''LOCALIZACAO'', VStr ''Urbana''),
                   (''TAXA_ABANDONO'', VNum 0), (''TOTAL_ALUNOS'', VNum 5)],
                  [(''CO_ENTIDADE'', VStr ''C''), (''CO_MUNICIPIO'', VNum 3550308), (''CO_UF'', VNum 35),
                   (''DEPENDENCIA'', VStr ''Estadual''), (''LOCALIZACAO'', VStr ''Urbana''),
                   (''TAXA_ABANDONO'', VNum 50), (''TOTAL_ALUNOS'', VNum 8)]]\<rparr>"
proof -
  have c: "\<forall>(c, op) \<in> set [(''CO_MUNICIPIO'', First), (''CO_UF'', First), (''DEPENDENCIA'', First),
              (''LOCALIZACAO'', First), (''ABANDONO'', Mean), (''NU_ANO_CENSO'', Count)].
            c \<in> set (columns tres_escolas)"
    by (simp add: tres_escolas_def)
  note g = groupby_tres_escolas
    [where linha = "\<lambda>m n. [(''CO_MUNICIPIO'', VNum 3550308), (''CO_UF'', VNum 35),
         (''DEPENDENCIA'', VStr ''Estadual''), (''LOCALIZACAO'', VStr ''Urbana''),
         (''ABANDONO'', VNum (of_nat m / of_nat (m + n))), (''NU_ANO_CENSO'', VNum (of_nat (m + n)))]",
     OF linha_df_escola c, simplified]
  show ?thesis
    by (simp add: df_escola_def g rename_cols_def renomear_agregado_def set_col_def cell_def Let_def)
qed

subsection \<open>The integrators keep the primary rows\<close>

lemma merge_left_estrutura:
  assumes m: "merge_left P S lk rk = Inr R" and u: "distinct (key_values S rk)"
  defines "rkeep \<equiv> (if lk = rk then filter (\<lambda>c. c \<noteq> rk) (columns S) else columns S)"
  shows "columns R = map (\<lambda>c. if c \<in> set rkeep then c @ ''_x'' else c) (columns P) @
                     map (\<lambda>c. if c \<in> set (columns P) then c @ ''_y'' else c) rkeep"
    and "list_all2 (\<lambda>p r. \<exists>t. r = map (\<lambda>(k, x). (if k \<in> set rkeep then k @ ''_x'' else k, x)) p @ t)
           (rows P) (rows R)"
proof -
  define ren_l where "ren_l = (\<lambda>c. if c \<in> set rkeep then c @ ''_x'' else c)"
  define ren_r where "ren_r = (\<lambda>c. if c \<in> set (columns P) then c @ ''_y'' else c)"
  define sl where "sl = (\<lambda>lr::row. map (\<lambda>(k, x). (ren_l k, x)) lr)"
  define sr where "sr = (\<lambda>rr::row. map (\<lambda>(k, x). (ren_r k, x)) (filter (\<lambda>(k, x). k \<in> set rkeep) rr))"
  define nul where "nul = map (\<lambda>c. (ren_r c, VNull)) rkeep"
  define g where "g = (\<lambda>lr. (let ms = filter (\<lambda>rr. cell rr rk = cell lr lk) (rows S)
                           in if ms = [] then [sl lr @ nul]
                              else map (\<lambda>rr. sl lr @ sr rr) ms))"
  have "lk \<in> set (columns P)" "rk \<in> set (columns S)"
    using m by (auto simp: merge_left_def split: if_splits)
  then have R: "R = \<lparr>columns = map ren_l (columns P) @ map ren_r rkeep,
                 rows = concat (map g (rows P))\<rparr>"
    using m unfolding merge_left_def rkeep_def ren_l_def ren_r_def sl_def sr_def nul_def g_def Let_def
    by simp
  show "columns R = map (\<lambda>c. if c \<in> set rkeep then c @ ''_x'' else c) (columns P) @
                     map (\<lambda>c. if c \<in> set (columns P) then c @ ''_y'' else c) rkeep"
    by (simp add: R ren_l_def ren_r_def)
  have one: "\<exists>t. g lr = [sl lr @ t]" for lr
  proof -
    have "length (filter (\<lambda>rr. cell rr rk = cell lr lk) (rows S)) \<le> 1"
      using filter_key_unique[of "\<lambda>r. cell r rk" "rows S"] u by (simp add: key_values_def)
    then consider "filter (\<lambda>rr. cell rr rk = cell lr lk) (rows S) = []"
      | rr where "filter (\<lambda>rr. cell rr rk = cell lr lk) (rows S) = [rr]"
      by (cases "filter (\<lambda>rr. cell rr rk = cell lr lk) (rows S)") (auto simp: Suc_le_eq)
    then show ?thesis by cases (auto simp: g_def)
  qed
  have "list_all2 (\<lambda>p r. \<exists>t. r = sl p @ t) xs (concat (map g xs))" for xs
  proof (induction xs)
    case Nil
    then show ?case by simp
  next
    case (Cons x xs)
    obtain t where "g x = [sl x @ t]" using one by blast
    then show ?case using Cons by simp
  qed
  then show "list_all2 (\<lambda>p r. \<exists>t. r = map (\<lambda>(k, x). (if k \<in> set rkeep then k @ ''_x'' else k, x)) p @ t)
           (rows P) (rows R)"
    by (simp add: R sl_def ren_l_def)
qed

lemma length_rows_normalizar_valores:
  "length (rows (normalizar_valores vs df)) = length (rows df)"
  by (subst normalizar_valores_rows) simp

lemma wf_normalizar_valores: "wf_df df \<Longrightarrow> wf_df (normalizar_valores vs df)"
  by (subst normalizar_valores_rows) (simp add: wf_df_def list_all_iff fst_normalizar_linha)

lemma fst_rename_row: "map fst (map (\<lambda>(k, x). (f k, x)) r) = map f (map fst r)"
  by (induction r) auto

lemma rename_cols_shape:
  "length (rows (rename_cols f df)) = length (rows df)"
  "wf_df df \<Longrightarrow> wf_df (rename_cols f df)"
proof -
  show "length (rows (rename_cols f df)) = length (rows df)"
    by (simp add: rename_cols_def)
  assume w: "wf_df df"
  have "map fst (map (\<lambda>(k, x). (f k, x)) r) = map f (columns df)" if "r \<in> set (rows df)" for r
    using w that unfolding fst_rename_row by (simp add: wf_df_def list_all_iff)
  then show "wf_df (rename_cols f df)"
    unfolding wf_df_def rename_cols_def list_all_iff by simp
qed

lemma renomear_colunas_shape:
  "length (rows (renomear_colunas cs df)) = length (rows df)"
  "wf_df df \<Longrightarrow> wf_df (renomear_colunas cs df)"
  by (auto simp: renomear_colunas_def rename_cols_shape Let_def split: option.splits)

lemma indice_infraestrutura_shape:
  "length (rows (indice_infraestrutura df)) = length (rows df)"
  "wf_df df \<Longrightarrow> wf_df (indice_infraestrutura df)"
  by (auto simp: indice_infraestrutura_def Let_def length_rows_set_col wf_set_col)

lemma derivar_regiao_shape:
  "length (rows (derivar_regiao df)) = length (rows df)"
  "wf_df df \<Longrightarrow> wf_df (derivar_regiao df)"
  by (auto simp: derivar_regiao_def length_rows_set_col wf_set_col)

lemma normalizar_variaveis_shape:
  "length (rows (normalizar_variaveis df m nivel)) = length (rows df)"
  "wf_df df \<Longrightarrow> wf_df (normalizar_variaveis df m nivel)"
  by (auto simp: normalizar_variaveis_def Let_def indice_infraestrutura_shape derivar_regiao_shape
      length_rows_normalizar_valores wf_normalizar_valores renomear_colunas_shape)



lemma carregar_tipos_mem:
  assumes "carregar_tipos arq d tipos = Some dados" "(t, S) \<in> set dados"
  shows "ler_csv d (arq t) = Some S"
proof -
  have "dados = concat (map (\<lambda>tipo. case ler_csv d (arq tipo) of
                                         Some df \<Rightarrow> [(tipo, df)] | None \<Rightarrow> []) tipos)"
    using assms(1) by (simp add: carregar_tipos_def Let_def split: if_splits)
  then show ?thesis using assms(2) by (auto split: option.splits)
qed















subsection \<open>The integrators on small disks\<close>

lemma carregar_disco_escolas:
  "carregar_censo_escolar disco_escolas 2021 ''escola'' = Some censo_duas_escolas"
  "carregar_saeb disco_escolas (ano_saeb 2021) = Some [(''escola'', saeb_uma_escola)]"
  "carregar_indicadores_educacionais disco_escolas 2021 = Some [(''inse'', inse_duas_escolas)]"
  by (simp_all add: carregar_censo_escolar_def carregar_saeb_def carregar_tipos_def ler_csv_def
      carregar_indicadores_educacionais_def disco_escolas_def ano_saeb_def)

lemma normalizar_censo_duas_escolas:
  "normalizar_variaveis censo_duas_escolas mapeamentos_censo_escola ''escola'' =
     \<lparr>columns = [''CO_ENTIDADE'', ''TP_DEPENDENCIA'', ''TAXA_ABANDONO''],
      rows = [[(''CO_ENTIDADE'', VNum 1), (''TP_DEPENDENCIA'', VStr ''Estadual''),
               (''TAXA_ABANDONO'', VNum 20)],
              [(''CO_ENTIDADE'', VNum 2), (''TP_DEPENDENCIA'', VStr ''Municipal''),
               (''TAXA_ABANDONO'', VNum 0)]]\<rparr>"
  by (simp add: normalizar_variaveis_def mapeamentos_censo_escola_def renomear_colunas_def
      normalizar_valores_def indice_infraestrutura_def censo_duas_escolas_def Let_def
      set_col_def cell_def mapear_valor_def)

lemma integrar_disco_escolas:
  "integrar_dados_nivel_escola disco_escolas 2021 = Inr (Some escolas_integradas)"
  unfolding integrar_dados_nivel_escola_def carregar_disco_escolas option.case Let_def
    normalizar_censo_duas_escolas
  by (simp add: integrar_saeb_escola_def codigo_escola_saeb_def rename_cols_def
      merge_left_def select_cols_def cell_def saeb_uma_escola_def inse_duas_escolas_def
      escolas_integradas_def Let_def)






subsection \<open>An absent secondary source\<close>

lemma linhas_estendidas_refl: "linhas_estendidas P P"
  by (simp add: linhas_estendidas_def list_all2_same)

lemma linhas_estendidas_length: "linhas_estendidas P R \<Longrightarrow> length (rows R) = length (rows P)"
  by (simp add: linhas_estendidas_def list_all2_lengthD)

lemma linhas_estendidas_cell:
  assumes wf: "wf_df P" and e: "linhas_estendidas P R"
    and i: "i < length (rows P)" and c: "c \<in> set (columns P)"
  shows "cell (rows R ! i) c = cell (rows P ! i) c"
proof -
  let ?p = "rows P ! i" and ?r = "rows R ! i"
  have t: "take (length ?p) ?r = ?p"
    using e i by (simp add: linhas_estendidas_def list_all2_conv_all_nth)
  have "?r = ?p @ drop (length ?p) ?r"
    using append_take_drop_id[of "length ?p" ?r] t by simp
  then have r: "map_of ?r c = map_of (?p @ drop (length ?p) ?r) c" by simp
  have "map fst ?p = columns P" using wf i by (simp add: wf_df_def list_all_length)
  then have "c \<in> fst ` set ?p" using c by (metis set_map)
  then obtain y where "map_of ?p c = Some y"
    by (metis domIff dom_map_of_conv_image_fst not_Some_eq)
  then show ?thesis unfolding cell_def r by (simp add: map_add_def)
qed

lemma merge_left_columns:
  assumes "merge_left P S k k = Inr R"
  shows "k \<in> set (columns P)" and "k \<in> set (columns R)"
proof -
  show k: "k \<in> set (columns P)"
    using assms by (auto simp: merge_left_def split: if_splits)
  have "k \<in> set (columns S)"
    using assms by (auto simp: merge_left_def split: if_splits)
  then have "columns R = map (\<lambda>c. if c \<in> set (filter (\<lambda>c. c \<noteq> k) (columns S)) then c @ ''_x'' else c)
                           (columns P) @
                         map (\<lambda>c. if c \<in> set (columns P) then c @ ''_y'' else c)
                           (filter (\<lambda>c. c \<noteq> k) (columns S))"
    using assms k by (auto simp: merge_left_def Let_def)
  then show "k \<in> set (columns R)" using k by force
qed

lemma merge_novas_estende:
  assumes wf: "wf_df Pn" and sub: "set (columns Pn) \<subseteq> set (columns L)"
    and e: "linhas_estendidas Pn L"
    and m: "merge_left L (select_cols (\<lambda>c. c \<notin> set (columns L) \<or> c = k) S) k k = Inr R"
    and u: "distinct (key_values S k)"
  shows "set (columns Pn) \<subseteq> set (columns R)" and "linhas_estendidas Pn R"
proof -
  let ?nova = "\<lambda>c. c \<notin> set (columns L) \<or> c = k"
  let ?S = "select_cols ?nova S"
  let ?rkeep = "filter (\<lambda>c. c \<noteq> k) (columns ?S)"
  let ?ren = "\<lambda>c. if c \<in> set ?rkeep then c @ ''_x'' else c"
  have u': "distinct (key_values ?S k)"
    using u key_values_select_cols[of ?nova k S] by simp
  have id: "?ren c = c" if "c \<in> set (columns L)" for c
    using that by (auto simp: columns_select_cols)
  have cols: "columns R = map ?ren (columns L) @
                map (\<lambda>c. if c \<in> set (columns L) then c @ ''_y'' else c) ?rkeep"
    using merge_left_estrutura(1)[OF m u'] by simp
  have "map ?ren (columns L) = columns L"
    using id by (simp add: map_idI)
  then show s: "set (columns Pn) \<subseteq> set (columns R)"
    using sub cols by auto
  have st: "list_all2 (\<lambda>p r. \<exists>t. r = map (\<lambda>(k, x). (?ren k, x)) p @ t) (rows L) (rows R)"
    using merge_left_estrutura(2)[OF m u'] by simp
  have lL: "length (rows Pn) = length (rows L)" and lR: "length (rows L) = length (rows R)"
    using e st by (simp_all add: linhas_estendidas_def list_all2_lengthD)
  show "linhas_estendidas Pn R"
    unfolding linhas_estendidas_def
  proof (rule list_all2_all_nthI)
    show "length (rows Pn) = length (rows R)" using lL lR by simp
  next
    fix i assume i: "i < length (rows Pn)"
    let ?p = "rows Pn ! i" and ?l = "rows L ! i" and ?r = "rows R ! i"
    have tl: "take (length ?p) ?l = ?p"
      using e i by (simp add: linhas_estendidas_def list_all2_conv_all_nth)
    obtain t where r: "?r = map (\<lambda>(k, x). (?ren k, x)) ?l @ t"
      using st i lL by (auto simp: list_all2_conv_all_nth)
    have keys: "map fst ?p = columns Pn" using wf i by (simp add: wf_df_def list_all_length)
    have pid: "map (\<lambda>(k, x). (?ren k, x)) ?p = ?p"
    proof (rule map_idI)
      fix a assume a: "a \<in> set ?p"
      then have "fst a \<in> set (columns Pn)" using keys by (metis image_eqI set_map)
      then have "fst a \<in> set (columns L)" using sub by blast
      from id[OF this] have "?ren (fst a) = fst a" .
      then have "(?ren (fst a), snd a) = a" by (simp only: prod.collapse)
      then show "(case a of (k, x) \<Rightarrow> (?ren k, x)) = a" by (simp only: case_prod_unfold)
    qed
    have len: "length ?p \<le> length ?l"
      using arg_cong[OF tl, of length] by simp
    have "take (length ?p) ?r = take (length ?p) (map (\<lambda>(k, x). (?ren k, x)) ?l)"
      unfolding r using len by simp
    also have "\<dots> = map (\<lambda>(k, x). (?ren k, x)) (take (length ?p) ?l)"
      by (simp add: take_map)
    also have "\<dots> = ?p" unfolding tl pid ..
    finally show "take (length ?p) ?r = ?p" .
  qed
qed

lemma integrar_indicadores_estende:
  assumes "wf_df Pn" and "set (columns Pn) \<subseteq> set (columns L)" and "linhas_estendidas Pn L"
    and "integrar_indicadores k inds L = Inr R"
    and "\<forall>(tipo, S) \<in> set inds. distinct (key_values S k)"
  shows "linhas_estendidas Pn R"
  using assms
proof (induction inds arbitrary: L)
  case Nil
  then show ?case by simp
next
  case (Cons a inds)
  obtain tipo S where a: "a = (tipo, S)" by (cases a)
  let ?nova = "\<lambda>col. col \<notin> set (columns L) \<or> col = k"
  have rest: "\<forall>(tipo, S) \<in> set inds. distinct (key_values S k)"
    and u: "distinct (key_values S k)"
    using Cons.prems(5) a by simp_all
  show ?case
  proof (cases "k \<in> set (columns S) \<and> filter ?nova (columns S) \<noteq> [] \<and>
                  length (filter ?nova (columns S)) > 1")
    case True
    show ?thesis
    proof (cases "merge_left L (select_cols ?nova S) k k")
      case (Inl e)
      then have "integrar_indicadores k (a # inds) L = Inl e"
        using True by (simp add: a Let_def)
      then show ?thesis using Cons.prems(4) by simp
    next
      case (Inr L')
      then have "integrar_indicadores k (a # inds) L = integrar_indicadores k inds L'"
        using True by (simp add: a Let_def)
      then have r: "integrar_indicadores k inds L' = Inr R" using Cons.prems(4) by simp
      from merge_novas_estende[OF Cons.prems(1,2,3) Inr u]
      have "set (columns Pn) \<subseteq> set (columns L')" "linhas_estendidas Pn L'" .
      then show ?thesis using Cons.IH[OF Cons.prems(1) _ _ r rest] by blast
    qed
  next
    case False
    then have "integrar_indicadores k (a # inds) L = integrar_indicadores k inds L"
      by (auto simp: a Let_def)
    then show ?thesis using Cons.IH[OF Cons.prems(1,2,3) _ rest] Cons.prems(4) by simp
  qed
qed

lemma integrar_indicadores_total:
  assumes "k \<in> set (columns L)"
  shows "\<exists>R. integrar_indicadores k inds L = Inr R"
  using assms
proof (induction inds arbitrary: L)
  case Nil
  then show ?case by simp
next
  case (Cons a inds)
  obtain tipo S where a: "a = (tipo, S)" by (cases a)
  let ?nova = "\<lambda>col. col \<notin> set (columns L) \<or> col = k"
  show ?case
  proof (cases "k \<in> set (columns S) \<and> filter ?nova (columns S) \<noteq> [] \<and>
                  length (filter ?nova (columns S)) > 1")
    case True
    then have "k \<in> set (columns (select_cols ?nova S))" by (simp add: columns_select_cols)
    from merge_left_Inr[OF Cons.prems this]
    obtain L' where m: "merge_left L (select_cols ?nova S) k k = Inr L'" by blast
    then have "integrar_indicadores k (a # inds) L = integrar_indicadores k inds L'"
      using True by (simp add: a Let_def)
    moreover have "k \<in> set (columns L')" using merge_left_columns(2)[OF m] .
    ultimately show ?thesis using Cons.IH by simp
  next
    case False
    then have "integrar_indicadores k (a # inds) L = integrar_indicadores k inds L"
      by (auto simp: a Let_def)
    then show ?thesis using Cons.IH[OF Cons.prems] by simp
  qed
qed

lemma integrar_saeb_escola_casos:
  assumes "integrar_saeb_escola P dados = Inr D"
    and "\<forall>ds S0. dados = Some ds \<and> map_of ds ''escola'' = Some S0 \<longrightarrow>
           distinct (key_values (codigo_escola_saeb S0) ''CO_ENTIDADE'')"
  shows "D = P \<or> (\<exists>S. distinct (key_values S ''CO_ENTIDADE'') \<and>
           merge_left P (select_cols (\<lambda>col. col \<notin> set (columns P) \<or> col = ''CO_ENTIDADE'') S)
             ''CO_ENTIDADE'' ''CO_ENTIDADE'' = Inr D)"
proof (cases dados)
  case None
  then show ?thesis using assms(1) by (simp add: integrar_saeb_escola_def)
next
  case (Some ds)
  show ?thesis
  proof (cases "map_of ds ''escola''")
    case None
    then show ?thesis using assms(1) Some by (simp add: integrar_saeb_escola_def)
  next
    case (Some S0)
    let ?S = "codigo_escola_saeb S0"
    let ?rel = "\<lambda>col. col \<notin> set (columns P) \<or> col = ''CO_ENTIDADE''"
    have u: "distinct (key_values ?S ''CO_ENTIDADE'')"
      using assms(2) \<open>dados = Some ds\<close> Some by simp
    show ?thesis
    proof (cases "filter ?rel (columns ?S) = []")
      case True
      then show ?thesis using assms(1) Some \<open>dados = Some ds\<close>
        by (simp add: integrar_saeb_escola_def Let_def)
    next
      case False
      then have "merge_left P (select_cols ?rel ?S) ''CO_ENTIDADE'' ''CO_ENTIDADE'' = Inr D"
        using assms(1) Some \<open>dados = Some ds\<close>
        by (simp add: integrar_saeb_escola_def Let_def)
      then show ?thesis using u by blast
    qed
  qed
qed

lemma disco_sem_saeb_escola:
  "carregar_censo_escolar (d(Saeb a ''escola'' := None)) ano nivel = carregar_censo_escolar d ano nivel"
  "carregar_indicadores_educacionais (d(Saeb a ''escola'' := None)) ano
     = carregar_indicadores_educacionais d ano"
  "integrar_saeb_escola P (carregar_saeb (d(Saeb a ''escola'' := None)) a) = Inr P"
proof -
  show "carregar_censo_escolar (d(Saeb a ''escola'' := None)) ano nivel = carregar_censo_escolar d ano nivel"
    by (simp add: carregar_censo_escolar_def ler_csv_def)
  show "carregar_indicadores_educacionais (d(Saeb a ''escola'' := None)) ano
     = carregar_indicadores_educacionais d ano"
    by (simp add: carregar_indicadores_educacionais_def carregar_tipos_def ler_csv_def)
  have "ler_csv (d(Saeb a ''escola'' := None)) (Saeb a ''escola'') = None"
    by (simp add: ler_csv_def)
  then have "case carregar_saeb (d(Saeb a ''escola'' := None)) a of
               None \<Rightarrow> True | Some ds \<Rightarrow> map_of ds ''escola'' = None"
    by (simp add: carregar_saeb_def carregar_tipos_def Let_def split: option.splits)
  then show "integrar_saeb_escola P (carregar_saeb (d(Saeb a ''escola'' := None)) a) = Inr P"
    by (simp add: integrar_saeb_escola_def split: option.splits)
qed

lemma fonte_ausente_escola:
  assumes c: "carregar_censo_escolar d ano ''escola'' = Some C" and wf: "wf_df C"
    and r: "integrar_dados_nivel_escola d ano = Inr (Some E)"
    and s: "\<forall>S0. ler_csv d (Saeb (ano_saeb ano) ''escola'') = Some S0 \<longrightarrow>
              distinct (key_values (codigo_escola_saeb S0) ''CO_ENTIDADE'')"
    and i: "\<forall>tipo S. ler_csv d (Indicadores tipo ano) = Some S \<longrightarrow>
              distinct (key_values S ''CO_ENTIDADE'')"
  shows "\<exists>E0. integrar_dados_nivel_escola (d(Saeb (ano_saeb ano) ''escola'' := None)) ano
                  = Inr (Some E0) \<and>
           linhas_estendidas (normalizar_variaveis C mapeamentos_censo_escola ''escola'') E0 \<and>
           linhas_estendidas (normalizar_variaveis C mapeamentos_censo_escola ''escola'') E"
proof -
  let ?Pn = "normalizar_variaveis C mapeamentos_censo_escola ''escola''"
  let ?k = "''CO_ENTIDADE''"
  let ?d0 = "d(Saeb (ano_saeb ano) ''escola'' := None)"
  have wfn: "wf_df ?Pn" using wf by (rule normalizar_variaveis_shape(2))
  have s': "\<forall>ds S0. carregar_saeb d (ano_saeb ano) = Some ds \<and> map_of ds ''escola'' = Some S0 \<longrightarrow>
           distinct (key_values (codigo_escola_saeb S0) ''CO_ENTIDADE'')"
  proof (intro allI impI)
    fix ds S0
    assume h: "carregar_saeb d (ano_saeb ano) = Some ds \<and> map_of ds ''escola'' = Some S0"
    then have mem: "(''escola'', S0) \<in> set ds" by (auto dest: map_of_SomeD)
    have "carregar_tipos (Saeb (ano_saeb ano)) d [''escola'', ''aluno'', ''professor'', ''diretor'']
            = Some ds"
      using h by (simp add: carregar_saeb_def)
    from carregar_tipos_mem[OF this mem]
    have "ler_csv d (Saeb (ano_saeb ano) ''escola'') = Some S0" .
    then show "distinct (key_values (codigo_escola_saeb S0) ''CO_ENTIDADE'')" using s by blast
  qed
  have u: "\<forall>(tipo, S) \<in> set inds. distinct (key_values S ?k)"
    if "carregar_indicadores_educacionais d ano = Some inds" for inds
  proof (clarify)
    fix tipo S assume mem: "(tipo, S) \<in> set inds"
    have "carregar_tipos (\<lambda>tipo. Indicadores tipo ano) d
            [''rendimento'', ''distorcao'', ''docente'', ''complexidade'', ''inse''] = Some inds"
      using that by (simp add: carregar_indicadores_educacionais_def)
    from carregar_tipos_mem[OF this mem]
    have "ler_csv d (Indicadores tipo ano) = Some S" .
    then show "distinct (key_values S ?k)" using i by blast
  qed
  obtain D where D: "integrar_saeb_escola ?Pn (carregar_saeb d (ano_saeb ano)) = Inr D"
    using r c by (cases "integrar_saeb_escola ?Pn (carregar_saeb d (ano_saeb ano))")
      (simp_all add: integrar_dados_nivel_escola_def Let_def)
  have E: "(case carregar_indicadores_educacionais d ano of
              None \<Rightarrow> Inr (Some D)
            | Some inds \<Rightarrow> (case integrar_indicadores ?k inds D of
                              Inl e \<Rightarrow> Inl e | Inr df \<Rightarrow> Inr (Some df))) = Inr (Some E)"
    using r c D by (simp add: integrar_dados_nivel_escola_def Let_def)
  have E0: "integrar_dados_nivel_escola ?d0 ano =
          (case carregar_indicadores_educacionais d ano of
              None \<Rightarrow> Inr (Some ?Pn)
            | Some inds \<Rightarrow> (case integrar_indicadores ?k inds ?Pn of
                              Inl e \<Rightarrow> Inl e | Inr df \<Rightarrow> Inr (Some df)))"
    using c by (simp add: integrar_dados_nivel_escola_def Let_def disco_sem_saeb_escola)
  from integrar_saeb_escola_casos[OF D s']
  consider (same) "D = ?Pn"
    | (merged) S where "distinct (key_values S ?k)"
        "merge_left ?Pn (select_cols (\<lambda>col. col \<notin> set (columns ?Pn) \<or> col = ?k) S) ?k ?k = Inr D"
    by blast
  then have estD: "set (columns ?Pn) \<subseteq> set (columns D) \<and> linhas_estendidas ?Pn D"
  proof cases
    case same
    then show ?thesis by (simp add: linhas_estendidas_refl)
  next
    case merged
    from merge_novas_estende[OF wfn subset_refl linhas_estendidas_refl merged(2) merged(1)]
    show ?thesis by blast
  qed
  have estE: "linhas_estendidas ?Pn E"
  proof (cases "carregar_indicadores_educacionais d ano")
    case None
    then show ?thesis using E estD by simp
  next
    case (Some inds)
    then have "integrar_indicadores ?k inds D = Inr E"
      using E by (simp split: sum.splits)
    from integrar_indicadores_estende[OF wfn _ _ this u[OF Some]] estD
    show ?thesis by blast
  qed
  have "\<exists>E0. integrar_dados_nivel_escola ?d0 ano = Inr (Some E0) \<and> linhas_estendidas ?Pn E0"
  proof (cases "carregar_indicadores_educacionais d ano")
    case None
    then show ?thesis using E0 by (simp add: linhas_estendidas_refl)
  next
    case (Some inds)
    have "\<exists>R. integrar_indicadores ?k inds ?Pn = Inr R"
      using \<open>D = ?Pn \<or> _\<close>
    proof
      assume "D = ?Pn"
      then show ?thesis using E Some by (simp split: sum.splits)
    next
      assume "\<exists>S. distinct (key_values S ?k) \<and>
           merge_left ?Pn (select_cols (\<lambda>col. col \<notin> set (columns ?Pn) \<or> col = ?k) S) ?k ?k = Inr D"
      then have "?k \<in> set (columns ?Pn)" using merge_left_columns(1) by blast
      then show ?thesis by (rule integrar_indicadores_total)
    qed
    then obtain R where R: "integrar_indicadores ?k inds ?Pn = Inr R" by blast
    from integrar_indicadores_estende[OF wfn subset_refl linhas_estendidas_refl R u[OF Some]]
    show ?thesis using E0 Some R by simp
  qed
  then show ?thesis using estE by blast
qed

text \<open>
  Against claim C8 as stated: with the SAEB table of \<open>disco_duplicado\<close> present the
  school-level integration returns two rows, with that file absent it returns the one
  census row.
\<close>

theorem fonte_presente_mais_linhas:
  "integrar_dados_nivel_escola disco_duplicado 2021 =
     Inr (Some \<lparr>columns = [''CO_ENTIDADE'', ''TAXA_ABANDONO'', ''NOTA''],
                rows = [[(''CO_ENTIDADE'', VNum 1), (''TAXA_ABANDONO'', VNum 20), (''NOTA'', VNum 250)],
                        [(''CO_ENTIDADE'', VNum 1), (''TAXA_ABANDONO'', VNum 20), (''NOTA'', VNum 300)]]\<rparr>) \<and>
   integrar_dados_nivel_escola (disco_duplicado(Saeb 2021 ''escola'' := None)) 2021 =
     Inr (Some \<lparr>columns = [''CO_ENTIDADE'', ''TAXA_ABANDONO''],
                rows = [[(''CO_ENTIDADE'', VNum 1), (''TAXA_ABANDONO'', VNum 20)]]\<rparr>)"
proof -
  have a: "carregar_censo_escolar (disco_duplicado(Saeb 2021 ''escola'' := None)) 2021 ''escola''
             = Some censo_uma_escola"
    "carregar_saeb (disco_duplicado(Saeb 2021 ''escola'' := None)) (ano_saeb 2021) = None"
    "carregar_indicadores_educacionais (disco_duplicado(Saeb 2021 ''escola'' := None)) 2021 = None"
    by (simp_all add: carregar_censo_escolar_def carregar_saeb_def carregar_tipos_def ler_csv_def
        carregar_indicadores_educacionais_def disco_duplicado_def ano_saeb_def)
  have p: "integrar_dados_nivel_escola disco_duplicado 2021 =
     Inr (Some \<lparr>columns = [''CO_ENTIDADE'', ''TAXA_ABANDONO'', ''NOTA''],
                rows = [[(''CO_ENTIDADE'', VNum 1), (''TAXA_ABANDONO'', VNum 20), (''NOTA'', VNum 250)],
                        [(''CO_ENTIDADE'', VNum 1), (''TAXA_ABANDONO'', VNum 20), (''NOTA'', VNum 300)]]\<rparr>)"
    unfolding integrar_dados_nivel_escola_def carregar_disco_duplicado option.case Let_def
      normalizar_censo_uma_escola
    by (simp add: integrar_saeb_escola_def codigo_escola_saeb_def
        merge_left_def select_cols_def cell_def censo_uma_escola_def saeb_duplicado_def Let_def)
  have q: "integrar_dados_nivel_escola (disco_duplicado(Saeb 2021 ''escola'' := None)) 2021 =
     Inr (Some \<lparr>columns = [''CO_ENTIDADE'', ''TAXA_ABANDONO''],
                rows = [[(''CO_ENTIDADE'', VNum 1), (''TAXA_ABANDONO'', VNum 20)]]\<rparr>)"
    unfolding integrar_dados_nivel_escola_def a option.case Let_def normalizar_censo_uma_escola
    by (simp add: integrar_saeb_escola_def censo_uma_escola_def)
  show ?thesis using p q by simp
qed

text \<open>
  Claim C8, amended. When the census table is well formed, the school-level integration
  with the SAEB school table present completes, and the tables that are joined have unique
  school codes, then the integration with the SAEB school file absent completes too, with
  the same number of rows (that of the census table) and the same value in every column
  of the normalised census table; only the joined columns can differ.
\<close>

theorem fonte_ausente_mesmas_linhas:
  assumes "carregar_censo_escolar d ano ''escola'' = Some C" and "wf_df C"
    and "integrar_dados_nivel_escola d ano = Inr (Some E)"
    and "\<forall>S0. ler_csv d (Saeb (ano_saeb ano) ''escola'') = Some S0 \<longrightarrow>
              distinct (key_values (codigo_escola_saeb S0) ''CO_ENTIDADE'')"
    and "\<forall>tipo S. ler_csv d (Indicadores tipo ano) = Some S \<longrightarrow>
              distinct (key_values S ''CO_ENTIDADE'')"
  shows "\<exists>E0. integrar_dados_nivel_escola (d(Saeb (ano_saeb ano) ''escola'' := None)) ano
                  = Inr (Some E0) \<and>
           length (rows E0) = length (rows E) \<and> length (rows E0) = length (rows C) \<and>
           (\<forall>i<length (rows C).
              \<forall>col \<in> set (columns (normalizar_variaveis C mapeamentos_censo_escola ''escola'')).
                cell (rows E0 ! i) col = cell (rows E ! i) col \<and>
                cell (rows E0 ! i) col
                  = cell (rows (normalizar_variaveis C mapeamentos_censo_escola ''escola'') ! i) col)"
proof -
  let ?Pn = "normalizar_variaveis C mapeamentos_censo_escola ''escola''"
  from fonte_ausente_escola[OF assms] obtain E0 where
    r: "integrar_dados_nivel_escola (d(Saeb (ano_saeb ano) ''escola'' := None)) ano = Inr (Some E0)"
    and e0: "linhas_estendidas ?Pn E0" and e: "linhas_estendidas ?Pn E"
    by blast
  have wfn: "wf_df ?Pn" using assms(2) by (rule normalizar_variaveis_shape(2))
  have n: "length (rows ?Pn) = length (rows C)" by (rule normalizar_variaveis_shape(1))
  have l: "length (rows E0) = length (rows C)" "length (rows E) = length (rows C)"
    using linhas_estendidas_length[OF e0] linhas_estendidas_length[OF e] n by simp_all
  have c: "cell (rows E0 ! i) col = cell (rows ?Pn ! i) col"
    "cell (rows E ! i) col = cell (rows ?Pn ! i) col"
    if "i < length (rows C)" "col \<in> set (columns ?Pn)" for i col
    using linhas_estendidas_cell[OF wfn e0, of i col] linhas_estendidas_cell[OF wfn e, of i col]
      that n by simp_all
  show ?thesis
    using r l c by auto
qed

theorem fonte_ausente_mesmas_linhas_witness:
  "carregar_censo_escolar disco_escolas 2021 ''escola'' = Some censo_duas_escolas \<and>
   wf_df censo_duas_escolas \<and>
   integrar_dados_nivel_escola disco_escolas 2021 = Inr (Some escolas_integradas) \<and>
   (\<exists>E0. integrar_dados_nivel_escola (disco_escolas(Saeb (ano_saeb 2021) ''escola'' := None)) 2021
            = Inr (Some E0) \<and>
      length (rows E0) = 2 \<and>
      cell (rows E0 ! 0) ''TAXA_ABANDONO'' = VNum 20 \<and>
      cell (rows E0 ! 1) ''TP_DEPENDENCIA'' = VStr ''Municipal'')"
proof -
  let ?Pn = "normalizar_variaveis censo_duas_escolas mapeamentos_censo_escola ''escola''"
  have h: "carregar_censo_escolar disco_escolas 2021 ''escola'' = Some censo_duas_escolas"
    "wf_df censo_duas_escolas"
    "integrar_dados_nivel_escola disco_escolas 2021 = Inr (Some escolas_integradas)"
    "\<forall>S0. ler_csv disco_escolas (Saeb (ano_saeb 2021) ''escola'') = Some S0 \<longrightarrow>
           distinct (key_values (codigo_escola_saeb S0) ''CO_ENTIDADE'')"
    "\<forall>tipo S. ler_csv disco_escolas (Indicadores tipo 2021) = Some S \<longrightarrow>
           distinct (key_values S ''CO_ENTIDADE'')"
  proof -
    show "carregar_censo_escolar disco_escolas 2021 ''escola'' = Some censo_duas_escolas"
      by (rule carregar_disco_escolas(1))
    show "wf_df censo_duas_escolas" by (simp add: wf_df_def censo_duas_escolas_def)
    show "integrar_dados_nivel_escola disco_escolas 2021 = Inr (Some escolas_integradas)"
      by (rule integrar_disco_escolas)
    show "\<forall>S0. ler_csv disco_escolas (Saeb (ano_saeb 2021) ''escola'') = Some S0 \<longrightarrow>
           distinct (key_values (codigo_escola_saeb S0) ''CO_ENTIDADE'')"
      by (simp add: ler_csv_def disco_escolas_def ano_saeb_def codigo_escola_saeb_def
          saeb_uma_escola_def rename_cols_def key_values_def cell_def)
    show "\<forall>tipo S. ler_csv disco_escolas (Indicadores tipo 2021) = Some S \<longrightarrow>
           distinct (key_values S ''CO_ENTIDADE'')"
      by (auto simp: ler_csv_def disco_escolas_def inse_duas_escolas_def key_values_def cell_def
          split: if_splits)
  qed
  have v: "length (rows censo_duas_escolas) = 2"
    "''TAXA_ABANDONO'' \<in> set (columns ?Pn)" "''TP_DEPENDENCIA'' \<in> set (columns ?Pn)"
    "cell (rows ?Pn ! 0) ''TAXA_ABANDONO'' = VNum 20"
    "cell (rows ?Pn ! 1) ''TP_DEPENDENCIA'' = VStr ''Municipal''"
    unfolding normalizar_censo_duas_escolas
    by (simp_all add: censo_duas_escolas_def cell_def)
  from fonte_ausente_mesmas_linhas [OF h]
  obtain E0 where
    r: "integrar_dados_nivel_escola (disco_escolas(Saeb (ano_saeb 2021) ''escola'' := None)) 2021
          = Inr (Some E0)"
    and l: "length (rows E0) = length (rows censo_duas_escolas)"
    and c: "\<forall>i<length (rows censo_duas_escolas). \<forall>col \<in> set (columns ?Pn).
                cell (rows E0 ! i) col = cell (rows escolas_integradas ! i) col \<and>
                cell (rows E0 ! i) col = cell (rows ?Pn ! i) col"
    by blast
  have "cell (rows E0 ! 0) ''TAXA_ABANDONO'' = VNum 20"
    using c[rule_format, of 0 "''TAXA_ABANDONO''", THEN conjunct2] v by simp
  moreover have "cell (rows E0 ! 1) ''TP_DEPENDENCIA'' = VStr ''Municipal''"
    using c[rule_format, of 1 "''TP_DEPENDENCIA''", THEN conjunct2] v by simp
  ultimately show ?thesis using h(1,2,3) r l v(1) by auto
qed

end
